theory Spec2Isabelle
  imports Main
begin

section \<open>Python values of \<open>birthday_wish.py\<close>\<close>

subsection \<open>Exceptions\<close>

text \<open>
  An exception is its class and the text \<open>str(e)\<close>. The class tag is the one the
  \<open>except\<close> clauses of the script dispatch on: an instance of a subclass carries the
  tag of the listed class it belongs to (\<open>SMTPAuthenticationError\<close> is tagged
  \<open>SMTPException\<close>, \<open>ConnectionRefusedError\<close> is tagged \<open>EnvironmentError\<close>, which
  in Python 3 is the same class as \<open>OSError\<close>). \<open>EmptyDataError\<close> is the exception of
  pandas for a file without columns; it is a subclass of \<open>ValueError\<close> that no handler
  of the script names, and keeps its own tag. \<open>KeyboardInterrupt\<close> is the one tag that is
  not an instance of \<open>Exception\<close>.
\<close>

datatype exn_class =
    EnvironmentError
  | FileNotFoundError
  | ParserError
  | EmptyDataError
  | ValueError
  | KeyError
  | AttributeError
  | SMTPException
  | KeyboardInterrupt

datatype exn = Exn exn_class string

fun class_of :: "exn \<Rightarrow> exn_class" where
  "class_of (Exn c m) = c"

fun str_exn :: "exn \<Rightarrow> string" where
  "str_exn (Exn c m) = m"

definition is_Exception :: "exn \<Rightarrow> bool" where
  "is_Exception e = (class_of e \<noteq> KeyboardInterrupt)"

subsection \<open>Dates\<close>

text \<open>
  \<open>datetime.now()\<close> and the parsed \<open>DateOfBirth\<close> values. The script reads only
  \<open>.month\<close> and \<open>.day\<close>; the time of day is left out of the model, so every value
  is a calendar date at midnight.
\<close>

record datetime =
  year :: nat
  month :: nat
  day :: nat

definition is_leap_year :: "nat \<Rightarrow> bool" where
  "is_leap_year y = (y mod 4 = 0 \<and> (y mod 100 \<noteq> 0 \<or> y mod 400 = 0))"

definition days_in_month :: "nat \<Rightarrow> nat \<Rightarrow> nat" where
  "days_in_month y m =
     (if m = 2 then (if is_leap_year y then 29 else 28)
      else if m = 4 \<or> m = 6 \<or> m = 9 \<or> m = 11 then 30
      else 31)"

text \<open>The dates a Python \<open>datetime\<close> can hold.\<close>

definition valid_date :: "datetime \<Rightarrow> bool" where
  "valid_date d =
     (1 \<le> year d \<and> year d \<le> 9999 \<and> 1 \<le> month d \<and> month d \<le> 12 \<and>
      1 \<le> day d \<and> day d \<le> days_in_month (year d) (month d))"

subsection \<open>Text of values\<close>

definition digit_char :: "nat \<Rightarrow> char" where
  "digit_char n = char_of (48 + n)"

definition two_digits :: "nat \<Rightarrow> string" where
  "two_digits n = [digit_char (n div 10 mod 10), digit_char (n mod 10)]"

definition four_digits :: "nat \<Rightarrow> string" where
  "four_digits n = two_digits (n div 100) @ two_digits n"

text \<open>\<open>str\<close> of a midnight \<open>Timestamp\<close>: \<open>1990-03-14 00:00:00\<close>.\<close>

definition str_timestamp :: "datetime \<Rightarrow> string" where
  "str_timestamp d =
     four_digits (year d) @ ''-'' @ two_digits (month d) @ ''-'' @ two_digits (day d)
       @ '' 00:00:00''"

text \<open>\<open>repr\<close> of a text without quotes or backslashes.\<close>

definition py_repr :: "string \<Rightarrow> string" where
  "py_repr s = [CHR 0x27] @ s @ [CHR 0x27]"

subsection \<open>Lines of a text\<close>

text \<open>
  A text is the list of the bytes of its UTF-8 encoding. \<open>str.splitlines\<close> breaks a
  text at a line feed, a carriage return (with a following line feed as one break), a
  vertical tab, a form feed, the separators \<open>0x1C\<close> to \<open>0x1E\<close>, the next-line
  character (bytes \<open>C2 85\<close>) and the line and paragraph separators (bytes \<open>E2 80 A8\<close>
  and \<open>E2 80 A9\<close>); \<open>bytes.splitlines\<close> breaks at a line feed and a carriage return
  only. The functions below give the length of the break a text starts with, 0 when it
  starts with none.
\<close>

definition str_break :: "string \<Rightarrow> nat" where
  "str_break s =
     (if take 2 s = [CHR 0x0D, CHR 0x0A] then 2
      else if take 2 s = [CHR 0xC2, CHR 0x85] then 2
      else if take 3 s = [CHR 0xE2, CHR 0x80, CHR 0xA8] \<or> take 3 s = [CHR 0xE2, CHR 0x80, CHR 0xA9]
      then 3
      else (case s of
              [] \<Rightarrow> 0
            | c # cs \<Rightarrow>
                if c \<in> set [CHR 0x0A, CHR 0x0B, CHR 0x0C, CHR 0x0D, CHR 0x1C, CHR 0x1D, CHR 0x1E]
                then 1 else 0))"

definition bytes_break :: "string \<Rightarrow> nat" where
  "bytes_break s =
     (if take 2 s = [CHR 0x0D, CHR 0x0A] then 2
      else (case s of
              [] \<Rightarrow> 0
            | c # cs \<Rightarrow> if c = CHR 0x0A \<or> c = CHR 0x0D then 1 else 0))"

text \<open>
  The lines of a text, without their breaks; \<open>cur\<close> is the line read so far, reversed.
  A break at the very end opens no further line.
\<close>

function splitlines_with :: "(string \<Rightarrow> nat) \<Rightarrow> string \<Rightarrow> string \<Rightarrow> string list" where
  "splitlines_with brk cur [] = (if cur = [] then [] else [rev cur])"
| "splitlines_with brk cur (c # cs) =
     (if brk (c # cs) = 0 then splitlines_with brk (c # cur) cs
      else rev cur # splitlines_with brk [] (drop (brk (c # cs)) (c # cs)))"
  by pat_completeness auto
termination
  by (relation "measure (\<lambda>(brk, cur, s). length s)") auto

definition str_splitlines :: "string \<Rightarrow> string list" where
  "str_splitlines s = splitlines_with str_break [] s"

definition bytes_splitlines :: "string \<Rightarrow> string list" where
  "bytes_splitlines s = splitlines_with bytes_break [] s"

subsection \<open>Data frames\<close>

text \<open>
  The part of a pandas \<open>DataFrame\<close> the script touches. A cell of the date column is a
  \<open>Timestamp\<close> or \<open>NaT\<close> when pandas could parse the whole column (dtype
  \<open>datetime64\<close>); otherwise the column keeps dtype \<open>object\<close> and its cells are the
  texts of the file (\<open>NaN\<close> for an empty field). Columns that pandas would infer as
  numbers are outside the model. A row is the list of its labelled cells, in column
  order; the frame keeps its rows in file order.
\<close>

datatype cell = Timestamp datetime | NaT | Str string | NaN

datatype dtype = Datetime64 | Object

type_synonym row = "(string \<times> cell) list"

record dataframe =
  columns :: "string list"
  dtypes :: "(string \<times> dtype) list"
  rows :: "row list"

type_synonym series = "dtype \<times> cell list"

fun py_str :: "cell \<Rightarrow> string" where
  "py_str (Str s) = s"
| "py_str NaN = ''nan''"
| "py_str NaT = ''NaT''"
| "py_str (Timestamp d) = str_timestamp d"

definition cell_of :: "row \<Rightarrow> string \<Rightarrow> cell" where
  "cell_of r name = (case map_of r name of Some c \<Rightarrow> c | None \<Rightarrow> NaN)"

definition dtype_of :: "dataframe \<Rightarrow> string \<Rightarrow> dtype" where
  "dtype_of df name = (case map_of (dtypes df) name of Some t \<Rightarrow> t | None \<Rightarrow> Object)"

text \<open>\<open>df[name]\<close>: the column as a series, \<open>KeyError\<close> when there is no such column.\<close>

definition getitem_column :: "dataframe \<Rightarrow> string \<Rightarrow> exn + series" where
  "getitem_column df name =
     (if name \<in> set (columns df)
      then Inr (dtype_of df name, map (\<lambda>r. cell_of r name) (rows df))
      else Inl (Exn KeyError ([CHR 0x27] @ name @ [CHR 0x27])))"

text \<open>\<open>series.dt\<close>: only a datetime-like series has the accessor.\<close>

definition dt_accessor :: "series \<Rightarrow> exn + cell list" where
  "dt_accessor s =
     (case fst s of
        Datetime64 \<Rightarrow> Inr (snd s)
      | Object \<Rightarrow> Inl (Exn AttributeError ''Can only use .dt accessor with datetimelike values''))"

text \<open>\<open>.dt.month\<close> and \<open>.dt.day\<close>: the component, \<open>None\<close> standing for the \<open>NaN\<close> of a \<open>NaT\<close>.\<close>

fun dt_month :: "cell \<Rightarrow> nat option" where
  "dt_month (Timestamp d) = Some (month d)"
| "dt_month c = None"

fun dt_day :: "cell \<Rightarrow> nat option" where
  "dt_day (Timestamp d) = Some (day d)"
| "dt_day c = None"

text \<open>\<open>series == value\<close>, elementwise; a missing component compares unequal.\<close>

definition series_eq :: "nat option list \<Rightarrow> nat \<Rightarrow> bool list" where
  "series_eq xs v = map (\<lambda>x. x = Some v) xs"

text \<open>\<open>mask1 & mask2\<close>, elementwise.\<close>

definition series_and :: "bool list \<Rightarrow> bool list \<Rightarrow> bool list" where
  "series_and xs ys = map (\<lambda>(x, y). x \<and> y) (zip xs ys)"

text \<open>\<open>df[mask]\<close>: the rows at which the mask is true, in order.\<close>

definition boolean_index :: "dataframe \<Rightarrow> bool list \<Rightarrow> dataframe" where
  "boolean_index df keep = df\<lparr>rows := map fst (filter snd (zip (rows df) keep))\<rparr>"

text \<open>\<open>df.empty\<close>: some axis has length zero.\<close>

definition df_empty :: "dataframe \<Rightarrow> bool" where
  "df_empty df = (rows df = [] \<or> columns df = [])"

text \<open>\<open>person[name]\<close> on a row of \<open>iterrows()\<close>.\<close>

definition getitem_row :: "row \<Rightarrow> string \<Rightarrow> exn + cell" where
  "getitem_row r name =
     (case map_of r name of
        Some c \<Rightarrow> Inr c
      | None \<Rightarrow> Inl (Exn KeyError ([CHR 0x27] @ name @ [CHR 0x27])))"

subsection \<open>CSV files\<close>

text \<open>
  What \<open>pandas.read_csv\<close> finds at a path: no file, a file of zero bytes, a file whose
  rows it cannot tokenize (with the text of its \<open>ParserError\<close>), a file it cannot read
  for another reason (with the exception it raises), or a table: the column names of
  the header row and the records, each the list of its fields in column order. A field
  is \<open>None\<close> when pandas reads it as missing (an empty field or one of its markers for
  a missing value); a record shorter than the header is missing its last fields.
\<close>

datatype csv_file =
    NoSuchFile
  | EmptyFile
  | Untokenizable string
  | Unreadable exn
  | Table "string list" "string option list list"

definition field_of :: "string list \<Rightarrow> string option list \<Rightarrow> string \<Rightarrow> string option" where
  "field_of header record name =
     (case map_of (zip header record) name of Some (Some s) \<Rightarrow> Some s | _ \<Rightarrow> None)"

text \<open>A cell of a column that is not parsed: the text, \<open>NaN\<close> for a missing field.\<close>

definition text_cell :: "string option \<Rightarrow> cell" where
  "text_cell f = (case f of None \<Rightarrow> NaN | Some s \<Rightarrow> Str s)"

text \<open>
  \<open>parse_dates\<close>: the column becomes \<open>datetime64\<close> when there is at least one record
  and every field that is not missing is a date for \<open>to_datetime\<close>; a missing field is
  then \<open>NaT\<close>. With a field that is no date, or with no record at all, the column is
  returned unaltered, with dtype \<open>object\<close>. What \<open>to_datetime\<close> makes of a text is a
  parameter.
\<close>

definition is_date_field :: "(string \<Rightarrow> datetime option) \<Rightarrow> string option \<Rightarrow> bool" where
  "is_date_field parse f = (case f of None \<Rightarrow> True | Some s \<Rightarrow> parse s \<noteq> None)"

definition date_dtype :: "(string \<Rightarrow> datetime option) \<Rightarrow> string option list \<Rightarrow> dtype" where
  "date_dtype parse fs = (if fs \<noteq> [] \<and> list_all (is_date_field parse) fs then Datetime64 else Object)"

definition date_cell :: "(string \<Rightarrow> datetime option) \<Rightarrow> dtype \<Rightarrow> string option \<Rightarrow> cell" where
  "date_cell parse t f =
     (case t of
        Object \<Rightarrow> text_cell f
      | Datetime64 \<Rightarrow>
          (case f of
             None \<Rightarrow> NaT
           | Some s \<Rightarrow> (case parse s of Some d \<Rightarrow> Timestamp d | None \<Rightarrow> NaT)))"

text \<open>The row of a record: one labelled cell for each column of the header.\<close>

definition record_row ::
  "(string \<Rightarrow> datetime option) \<Rightarrow> dtype \<Rightarrow> string list \<Rightarrow> string option list \<Rightarrow> row" where
  "record_row parse t header r =
     map (\<lambda>name. (name, if name = ''DateOfBirth''
                         then date_cell parse t (field_of header r name)
                         else text_cell (field_of header r name)))
         header"

text \<open>The frame of a table whose header has the column \<open>DateOfBirth\<close>.\<close>

definition frame_of_table ::
  "(string \<Rightarrow> datetime option) \<Rightarrow> string list \<Rightarrow> string option list list \<Rightarrow> dataframe" where
  "frame_of_table parse header records =
     (let t = date_dtype parse (map (\<lambda>r. field_of header r ''DateOfBirth'') records) in
      \<lparr>columns = header,
       dtypes = map (\<lambda>name. (name, if name = ''DateOfBirth'' then t else Object)) header,
       rows = map (record_row parse t header) records\<rparr>)"

subsection \<open>Messages and the relay\<close>

record email_message =
  msg_subject :: string
  msg_from :: string
  msg_to :: string
  msg_content :: string

text \<open>
  What one \<open>SMTP_SSL\<close> session does: the connection, the login or \<open>send_message\<close>
  raises, or the relay accepts the message.
\<close>

datatype relay_outcome =
    ConnectRaises exn
  | LoginRaises exn
  | SendRaises exn
  | Accepted

datatype smtp_event =
    Connect string nat
  | Login string string
  | SendMessage email_message

section \<open>The world the script runs in\<close>

text \<open>
  The surroundings the script reads (\<open>dotenv_file\<close>: the variables of the \<open>.env\<close> file;
  \<open>files\<close>: what \<open>read_csv\<close> finds at a path; \<open>to_datetime\<close>: the date pandas reads
  from a text, \<open>None\<close> when it reads none; \<open>clock\<close>: what \<open>datetime.now()\<close> returns;
  \<open>relay\<close>: what the relay does in the session with a given number, for a given
  message; \<open>required_columns_str\<close>: how this process prints the set
  \<open>{"Name", "DateOfBirth", "Email"}\<close>, whose order Python does not fix;
  \<open>address_header\<close>: the text of a \<open>From\<close> or \<open>To\<close> header after the assignment of a
  text, which the \<open>email\<close> package parses as a list of addresses and prints again) and
  what it changes (\<open>environ\<close>: the process environment; \<open>stdout\<close>: the
  printed lines; \<open>smtp_log\<close>: the calls made to the relay; \<open>smtp_sessions\<close>: the number
  of sessions opened; \<open>csv_reads\<close>: the paths handed to \<open>read_csv\<close>; \<open>clock_reads\<close>:
  the number of calls of \<open>datetime.now()\<close>).
\<close>

record world =
  dotenv_file :: "string \<rightharpoonup> string"
  files :: "string \<Rightarrow> csv_file"
  to_datetime :: "string \<Rightarrow> datetime option"
  clock :: datetime
  relay :: "nat \<Rightarrow> email_message \<Rightarrow> relay_outcome"
  required_columns_str :: string
  address_header :: "string \<Rightarrow> string"
  environ :: "string \<rightharpoonup> string"
  stdout :: "string list"
  smtp_log :: "smtp_event list"
  smtp_sessions :: nat
  csv_reads :: "string list"
  clock_reads :: nat

definition print :: "string \<Rightarrow> world \<Rightarrow> world" where
  "print s w = w\<lparr>stdout := stdout w @ [s]\<rparr>"

text \<open>\<open>load_dotenv()\<close>: variables already in the environment are kept.\<close>

definition load_dotenv :: "world \<Rightarrow> world" where
  "load_dotenv w = w\<lparr>environ := dotenv_file w ++ environ w\<rparr>"

definition os_getenv :: "world \<Rightarrow> string \<Rightarrow> string option" where
  "os_getenv w name = environ w name"

text \<open>\<open>not x\<close> for an optional string: \<open>None\<close> and the empty string are false.\<close>

fun py_not :: "string option \<Rightarrow> bool" where
  "py_not None = True"
| "py_not (Some s) = (s = [])"

definition datetime_now :: "world \<Rightarrow> datetime \<times> world" where
  "datetime_now w = (clock w, w\<lparr>clock_reads := Suc (clock_reads w)\<rparr>)"

text \<open>
  \<open>pd.read_csv(path, parse_dates=["DateOfBirth"])\<close>: pandas raises a \<open>ValueError\<close> of
  its own when the header lacks the column named in \<open>parse_dates\<close>.
\<close>

definition read_csv_result :: "world \<Rightarrow> string \<Rightarrow> exn + dataframe" where
  "read_csv_result w path =
     (case files w path of
        NoSuchFile \<Rightarrow>
          Inl (Exn FileNotFoundError (''[Errno 2] No such file or directory: '' @ py_repr path))
      | EmptyFile \<Rightarrow> Inl (Exn EmptyDataError ''No columns to parse from file'')
      | Untokenizable m \<Rightarrow> Inl (Exn ParserError m)
      | Unreadable e \<Rightarrow> Inl e
      | Table header records \<Rightarrow>
          (if ''DateOfBirth'' \<in> set header
           then Inr (frame_of_table (to_datetime w) header records)
           else Inl (Exn ValueError
                  (''Missing column provided to '' @ py_repr ''parse_dates'' @ '': ''
                   @ py_repr ''DateOfBirth''))))"

definition pd_read_csv :: "world \<Rightarrow> string \<Rightarrow> (exn + dataframe) \<times> world" where
  "pd_read_csv w path = (read_csv_result w path, w\<lparr>csv_reads := csv_reads w @ [path]\<rparr>)"

text \<open>
  \<open>with smtplib.SMTP_SSL(host, port) as smtp: smtp.login(...); smtp.send_message(...)\<close>:
  one session; the result is the exception that leaves the block, if any.
\<close>

definition smtp_session ::
  "world \<Rightarrow> string \<Rightarrow> nat \<Rightarrow> string \<Rightarrow> string \<Rightarrow> email_message \<Rightarrow> exn option \<times> world" where
  "smtp_session w host port user password message =
     (let w1 = w\<lparr>smtp_sessions := Suc (smtp_sessions w)\<rparr> in
      case relay w (smtp_sessions w) message of
        ConnectRaises e \<Rightarrow>
          (Some e, w1\<lparr>smtp_log := smtp_log w @ [Connect host port]\<rparr>)
      | LoginRaises e \<Rightarrow>
          (Some e, w1\<lparr>smtp_log := smtp_log w @ [Connect host port, Login user password]\<rparr>)
      | SendRaises e \<Rightarrow>
          (Some e, w1\<lparr>smtp_log := smtp_log w
                          @ [Connect host port, Login user password, SendMessage message]\<rparr>)
      | Accepted \<Rightarrow>
          (None, w1\<lparr>smtp_log := smtp_log w
                        @ [Connect host port, Login user password, SendMessage message]\<rparr>))"

section \<open>The functions of \<open>birthday_wish.py\<close>\<close>

text \<open>
  \<open>load_env_variables\<close> (lines 9 to 24): the pair of credentials, or the error raised
  when either variable is \<open>None\<close> or empty.
\<close>

definition credentials_error :: exn where
  "credentials_error =
     Exn EnvironmentError ''GMAIL_ADDRESS or GMAIL_APP_PASSWORD not found in environment variables.''"

definition load_env_variables :: "world \<Rightarrow> (exn + string \<times> string) \<times> world" where
  "load_env_variables w =
     (let w1 = load_dotenv w;
          email_address = os_getenv w1 ''GMAIL_ADDRESS'';
          app_password = os_getenv w1 ''GMAIL_APP_PASSWORD''
      in if py_not email_address \<or> py_not app_password
         then (Inl credentials_error, w1)
         else (case (email_address, app_password) of
                 (Some a, Some p) \<Rightarrow> (Inr (a, p), w1)
               | _ \<Rightarrow> (Inl credentials_error, w1)))"

text \<open>
  \<open>read_birthdays\<close> (lines 27 to 53): the two handlers raise a new exception of the class
  they caught, any other exception of \<open>read_csv\<close> passes through, and a frame is
  checked for the three column names.
\<close>

definition required_columns :: "string list" where
  "required_columns = [''Name'', ''DateOfBirth'', ''Email'']"

definition read_birthdays :: "world \<Rightarrow> string \<Rightarrow> (exn + dataframe) \<times> world" where
  "read_birthdays w csv_file =
     (case pd_read_csv w csv_file of
        (Inl e, w1) \<Rightarrow>
          (if class_of e = FileNotFoundError
           then (Inl (Exn FileNotFoundError (''CSV file not found: '' @ csv_file)), w1)
           else if class_of e = ParserError
           then (Inl (Exn ParserError (''Error parsing CSV file: '' @ csv_file)), w1)
           else (Inl e, w1))
      | (Inr df, w1) \<Rightarrow>
          (if \<not> set required_columns \<subseteq> set (columns df)
           then (Inl (Exn ValueError
                   (''CSV file must contain columns: '' @ required_columns_str w1)), w1)
           else (Inr df, w1)))"

text \<open>
  \<open>get_todays_birthday_people\<close> (lines 56 to 71): the clock is read first, then the mask
  is built from the month and the day of the date column and applied to the frame.
\<close>

definition get_todays_birthday_people :: "world \<Rightarrow> dataframe \<Rightarrow> (exn + dataframe) \<times> world" where
  "get_todays_birthday_people w df =
     (case datetime_now w of
        (today, w1) \<Rightarrow>
          (case getitem_column df ''DateOfBirth'' of
             Inl e \<Rightarrow> (Inl e, w1)
           | Inr s \<Rightarrow>
               (case dt_accessor s of
                  Inl e \<Rightarrow> (Inl e, w1)
                | Inr dates \<Rightarrow>
                    (Inr (boolean_index df
                            (series_and (series_eq (map dt_month dates) (month today))
                                        (series_eq (map dt_day dates) (day today)))), w1))))"

text \<open>
  \<open>create_birthday_email\<close> (lines 74 to 100). The subject ends with the party popper
  emoji, written here as the four bytes of its UTF-8 encoding. The lines of the body
  template keep the four spaces of indentation they have in the source, and the
  backslash after the opening quotes removes the first line break.

  The assignment of a text to a header raises a \<open>ValueError\<close> when \<open>str.splitlines\<close>
  finds more than one line in it; otherwise the header holds the text as the package
  prints it back. \<open>From\<close> is assigned before \<open>To\<close>; the subject is one line.
  \<open>set_content\<close> stores the lines of the body (those of \<open>bytes.splitlines\<close>), each
  ended by a line feed, so the content ends with a line feed the body does not have.
\<close>

definition header_store :: "world \<Rightarrow> string \<Rightarrow> exn + string" where
  "header_store w text =
     (if 1 < length (str_splitlines text)
      then Inl (Exn ValueError
             ''Header values may not contain linefeed or carriage return characters'')
      else Inr (address_header w text))"

definition set_content :: "string \<Rightarrow> string" where
  "set_content body = concat (map (\<lambda>line. line @ [CHR 0x0A]) (bytes_splitlines body))"

definition birthday_subject :: string where
  "birthday_subject = ''Happy Birthday! '' @ [CHR 0xF0, CHR 0x9F, CHR 0x8E, CHR 0x89]"

definition birthday_body :: "string \<Rightarrow> string" where
  "birthday_body recipient_name =
     ''    Dear '' @ recipient_name @ '','' @ [CHR 0x0A, CHR 0x0A]
     @ ''    Wishing you a very Happy Birthday! May your day be filled with joy, laughter, and unforgettable moments.''
     @ [CHR 0x0A, CHR 0x0A]
     @ ''    Best wishes,'' @ [CHR 0x0A]
     @ ''    Your Friendly Birthday Bot'' @ [CHR 0x0A]
     @ ''    ''"

definition create_birthday_email ::
  "world \<Rightarrow> string \<Rightarrow> string \<Rightarrow> string \<Rightarrow> exn + email_message" where
  "create_birthday_email w sender_email recipient_email recipient_name =
     (case header_store w sender_email of
        Inl e \<Rightarrow> Inl e
      | Inr from_header \<Rightarrow>
     (case header_store w recipient_email of
        Inl e \<Rightarrow> Inl e
      | Inr to_header \<Rightarrow>
          Inr \<lparr>msg_subject = birthday_subject,
               msg_from = from_header,
               msg_to = to_header,
               msg_content = set_content (birthday_body recipient_name)\<rparr>))"

text \<open>
  \<open>send_email\<close> (lines 103 to 120): one session with the fixed host and port; an
  \<open>SMTPException\<close> is replaced by a new one whose text names the \<open>To\<close> header of the
  message, any other exception passes through.
\<close>

definition send_email :: "world \<Rightarrow> email_message \<Rightarrow> string \<Rightarrow> string \<Rightarrow> exn option \<times> world" where
  "send_email w message email_address app_password =
     (case smtp_session w ''smtp.gmail.com'' 465 email_address app_password message of
        (None, w1) \<Rightarrow> (None, w1)
      | (Some e, w1) \<Rightarrow>
          (if class_of e = SMTPException
           then (Some (Exn SMTPException
                   (''Failed to send email to '' @ msg_to message @ '': '' @ str_exn e)), w1)
           else (Some e, w1)))"

definition success_line :: "cell \<Rightarrow> cell \<Rightarrow> string" where
  "success_line name email =
     ''Successfully sent birthday email to '' @ py_str name @ '' ('' @ py_str email @ '')''"

text \<open>
  The body of the \<open>for\<close> loop of \<open>main\<close> for one person (lines 138 to 143): \<open>None\<close>
  when the iteration ends normally (the email was sent, or an \<open>SMTPException\<close> was
  caught and printed), the exception when one leaves the inner \<open>try\<close>. The two cells
  are read in the order of the arguments; the header and the format strings turn them
  into text with \<open>str\<close>. An exception of \<open>create_birthday_email\<close> is raised inside the
  same \<open>try\<close>.
\<close>

definition wish_person :: "world \<Rightarrow> string \<Rightarrow> string \<Rightarrow> row \<Rightarrow> exn option \<times> world" where
  "wish_person w sender_email app_password person =
     (case getitem_row person ''Email'' of
        Inl e \<Rightarrow> (Some e, w)
      | Inr email \<Rightarrow>
     (case getitem_row person ''Name'' of
        Inl e \<Rightarrow> (Some e, w)
      | Inr name \<Rightarrow>
     (case create_birthday_email w sender_email (py_str email) (py_str name) of
        Inl e \<Rightarrow>
          (if class_of e = SMTPException then (None, print (str_exn e) w)
           else (Some e, w))
      | Inr email_msg \<Rightarrow>
     (case send_email w email_msg sender_email app_password of
        (None, w1) \<Rightarrow> (None, print (success_line name email) w1)
      | (Some e, w1) \<Rightarrow>
          (if class_of e = SMTPException then (None, print (str_exn e) w1)
           else (Some e, w1))))))"

text \<open>The \<open>for\<close> loop over \<open>birthday_people.iterrows()\<close>.\<close>

fun wish_all :: "world \<Rightarrow> string \<Rightarrow> string \<Rightarrow> row list \<Rightarrow> exn option \<times> world" where
  "wish_all w sender_email app_password [] = (None, w)"
| "wish_all w sender_email app_password (person # people) =
     (case wish_person w sender_email app_password person of
        (Some e, w1) \<Rightarrow> (Some e, w1)
      | (None, w1) \<Rightarrow> wish_all w1 sender_email app_password people)"

text \<open>The statements inside the outer \<open>try\<close> of \<open>main\<close> (lines 129 to 143).\<close>

definition main_try :: "world \<Rightarrow> exn option \<times> world" where
  "main_try w =
     (case load_env_variables w of
        (Inl e, w1) \<Rightarrow> (Some e, w1)
      | (Inr (sender_email, app_password), w1) \<Rightarrow>
     (case read_birthdays w1 ''birthdays.csv'' of
        (Inl e, w2) \<Rightarrow> (Some e, w2)
      | (Inr df, w2) \<Rightarrow>
     (case get_todays_birthday_people w2 df of
        (Inl e, w3) \<Rightarrow> (Some e, w3)
      | (Inr birthday_people, w3) \<Rightarrow>
          (if df_empty birthday_people
           then (None, print ''No birthdays today. Have a nice day!'' w3)
           else wish_all w3 sender_email app_password (rows birthday_people)))))"

text \<open>\<open>main\<close>: \<open>except Exception as e: print(f"Error: {e}")\<close> around the above.\<close>

definition main :: "world \<Rightarrow> exn option \<times> world" where
  "main w =
     (case main_try w of
        (None, w1) \<Rightarrow> (None, w1)
      | (Some e, w1) \<Rightarrow>
          (if is_Exception e then (None, print (''Error: '' @ str_exn e) w1)
           else (Some e, w1)))"

text \<open>
  The status of the process: \<open>main()\<close> is the last statement of the script, so the
  status is 0 when it returns and non-zero when an exception leaves it.
\<close>

definition exit_status :: "world \<Rightarrow> nat" where
  "exit_status w = (case fst (main w) of None \<Rightarrow> 0 | Some e \<Rightarrow> 1)"

section \<open>Notions the properties are stated with\<close>

text \<open>
  A matched recipient: the date of birth is a calendar date whose month and day are
  those of the reference date. The year is not mentioned.
\<close>

definition has_birthday :: "datetime \<Rightarrow> row \<Rightarrow> bool" where
  "has_birthday reference r =
     (case cell_of r ''DateOfBirth'' of
        Timestamp d \<Rightarrow> month d = month reference \<and> day d = day reference
      | _ \<Rightarrow> False)"

text \<open>A well-formed dataset for the filter: the date column is there and holds dates.\<close>

definition datetime_frame :: "dataframe \<Rightarrow> bool" where
  "datetime_frame df =
     (''DateOfBirth'' \<in> set (columns df) \<and> dtype_of df ''DateOfBirth'' = Datetime64)"

text \<open>
  The exception that ends the startup stage, if any: the stage is everything \<open>main\<close>
  does before the loop over the matched people (the credentials, the dataset, the
  filter).
\<close>

definition startup_failure :: "world \<Rightarrow> exn option" where
  "startup_failure w =
     (case fst (load_env_variables w) of
        Inl e \<Rightarrow> Some e
      | Inr credentials \<Rightarrow>
          (case read_birthdays (load_dotenv w) ''birthdays.csv'' of
             (Inl e, w2) \<Rightarrow> Some e
           | (Inr df, w2) \<Rightarrow>
               (case fst (get_todays_birthday_people w2 df) of
                  Inl e \<Rightarrow> Some e
                | Inr birthday_people \<Rightarrow> None)))"

text \<open>The exception a session ends with, if any.\<close>

fun raised :: "relay_outcome \<Rightarrow> exn option" where
  "raised (ConnectRaises e) = Some e"
| "raised (LoginRaises e) = Some e"
| "raised (SendRaises e) = Some e"
| "raised Accepted = None"

text \<open>
  The calls one send attempt makes to the relay: one connection to the fixed host and
  port, then the login with the credentials, then the message.
\<close>

fun session_log :: "relay_outcome \<Rightarrow> string \<Rightarrow> string \<Rightarrow> email_message \<Rightarrow> smtp_event list" where
  "session_log (ConnectRaises e) user password m = [Connect ''smtp.gmail.com'' 465]"
| "session_log (LoginRaises e) user password m =
     [Connect ''smtp.gmail.com'' 465, Login user password]"
| "session_log out user password m =
     [Connect ''smtp.gmail.com'' 465, Login user password, SendMessage m]"

text \<open>The world after one send attempt for a message.\<close>

definition after_session :: "world \<Rightarrow> string \<Rightarrow> string \<Rightarrow> email_message \<Rightarrow> world" where
  "after_session w user password m =
     w\<lparr>smtp_sessions := Suc (smtp_sessions w),
       smtp_log := smtp_log w @ session_log (relay w (smtp_sessions w) m) user password m\<rparr>"

text \<open>The class of the exception a call raised, if it raised one.\<close>

definition raised_class :: "exn + 'a \<Rightarrow> exn_class option" where
  "raised_class result = (case result of Inl e \<Rightarrow> Some (class_of e) | Inr x \<Rightarrow> None)"

section \<open>Example data\<close>

text \<open>The rows of a frame, and the records of the file they are read from.\<close>

definition person :: "string \<Rightarrow> cell \<Rightarrow> string \<Rightarrow> row" where
  "person name born email = [(''Name'', Str name), (''DateOfBirth'', born), (''Email'', Str email)]"

definition alice :: row where
  "alice = person ''Alice Smith'' (Timestamp \<lparr>year = 1990, month = 3, day = 14\<rparr>) ''alice@example.com''"

definition bob :: row where
  "bob = person ''Bob Jones'' (Timestamp \<lparr>year = 1985, month = 11, day = 2\<rparr>) ''bob@example.com''"

definition carol :: row where
  "carol = person ''Carol Diaz'' (Timestamp \<lparr>year = 2000, month = 3, day = 14\<rparr>) ''carol@example.com''"

definition dave :: row where
  "dave = person ''Dave Leap'' (Timestamp \<lparr>year = 1996, month = 2, day = 29\<rparr>) ''dave@example.com''"

definition erin :: row where
  "erin = person ''Erin Park'' (Timestamp \<lparr>year = 1988, month = 3, day = 14\<rparr>) ''erin@example.com''"

definition frank :: row where
  "frank = person ''Frank Null'' NaT ''frank@example.com''"

definition people_frame :: "row list \<Rightarrow> dataframe" where
  "people_frame rs =
     \<lparr>columns = [''Name'', ''DateOfBirth'', ''Email''],
      dtypes = [(''Name'', Object), (''DateOfBirth'', Datetime64), (''Email'', Object)],
      rows = rs\<rparr>"

definition fields :: "string \<Rightarrow> string \<Rightarrow> string \<Rightarrow> string option list" where
  "fields name born email = [Some name, Some born, Some email]"

definition alice_fields :: "string option list" where
  "alice_fields = fields ''Alice Smith'' ''1990-03-14'' ''alice@example.com''"

definition bob_fields :: "string option list" where
  "bob_fields = fields ''Bob Jones'' ''1985-11-02'' ''bob@example.com''"

definition carol_fields :: "string option list" where
  "carol_fields = fields ''Carol Diaz'' ''2000-03-14'' ''carol@example.com''"

definition erin_fields :: "string option list" where
  "erin_fields = fields ''Erin Park'' ''1988-03-14'' ''erin@example.com''"

text \<open>A record whose date cannot be read, one without a date, one with a line break in the address.\<close>

definition smarch_fields :: "string option list" where
  "smarch_fields = fields ''Alice Smith'' ''14th of Smarch'' ''alice@example.com''"

definition frank_fields :: "string option list" where
  "frank_fields = [Some ''Frank Null'', None, Some ''frank@example.com'']"

definition mallory_fields :: "string option list" where
  "mallory_fields =
     fields ''Mallory Fold'' ''1991-03-14'' (''mallory@example.com'' @ [CHR 0x0A] @ ''Bcc: all@example.com'')"

text \<open>The dates pandas reads from the texts of the examples.\<close>

definition example_dates :: "string \<Rightarrow> datetime option" where
  "example_dates =
     map_of [(''1990-03-14'', \<lparr>year = 1990, month = 3, day = 14\<rparr>),
             (''1985-11-02'', \<lparr>year = 1985, month = 11, day = 2\<rparr>),
             (''2000-03-14'', \<lparr>year = 2000, month = 3, day = 14\<rparr>),
             (''1988-03-14'', \<lparr>year = 1988, month = 3, day = 14\<rparr>),
             (''1991-03-14'', \<lparr>year = 1991, month = 3, day = 14\<rparr>)]"

definition standard_header :: "string list" where
  "standard_header = [''Name'', ''DateOfBirth'', ''Email'']"

text \<open>
  A run on the 14th of March 2025: credentials in the \<open>.env\<close> file, a file
  \<open>birthdays.csv\<close> with the standard header and the given records, a relay that accepts
  everything, addresses that the header prints back as they are.
\<close>

definition march_world :: "string option list list \<Rightarrow> world" where
  "march_world records =
     \<lparr>dotenv_file = [''GMAIL_ADDRESS'' \<mapsto> ''bot@gmail.com'', ''GMAIL_APP_PASSWORD'' \<mapsto> ''app-secret''],
      files = (\<lambda>path. if path = ''birthdays.csv'' then Table standard_header records
                      else NoSuchFile),
      to_datetime = example_dates,
      clock = \<lparr>year = 2025, month = 3, day = 14\<rparr>,
      relay = (\<lambda>n m. Accepted),
      required_columns_str =
        ''{'' @ py_repr ''Name'' @ '', '' @ py_repr ''DateOfBirth'' @ '', '' @ py_repr ''Email'' @ ''}'',
      address_header = (\<lambda>text. text),
      environ = Map.empty,
      stdout = [],
      smtp_log = [],
      smtp_sessions = 0,
      csv_reads = [],
      clock_reads = 0\<rparr>"

text \<open>The same run with no \<open>GMAIL_ADDRESS\<close> anywhere.\<close>

definition no_address_world :: world where
  "no_address_world =
     (march_world [alice_fields])\<lparr>dotenv_file := [''GMAIL_APP_PASSWORD'' \<mapsto> ''app-secret'']\<rparr>"

text \<open>The same run with \<open>GMAIL_APP_PASSWORD\<close> exported as the empty string.\<close>

definition empty_password_world :: world where
  "empty_password_world =
     (march_world [alice_fields])\<lparr>environ := [''GMAIL_APP_PASSWORD'' \<mapsto> []]\<rparr>"

text \<open>The same surroundings on other days.\<close>

definition november_world :: "string option list list \<Rightarrow> world" where
  "november_world records = (march_world records)\<lparr>clock := \<lparr>year = 2025, month = 11, day = 2\<rparr>\<rparr>"

definition february_world :: "string option list list \<Rightarrow> world" where
  "february_world records = (march_world records)\<lparr>clock := \<lparr>year = 2025, month = 2, day = 28\<rparr>\<rparr>"

text \<open>A world with the given file at \<open>birthdays.csv\<close>.\<close>

definition with_file :: "world \<Rightarrow> csv_file \<Rightarrow> world" where
  "with_file w f = w\<lparr>files := (\<lambda>path. if path = ''birthdays.csv'' then f else files w path)\<rparr>"

text \<open>Files that lack one of the three columns, and a file with one column more.\<close>

definition no_name_table :: csv_file where
  "no_name_table = Table [''DateOfBirth'', ''Email''] [tl alice_fields]"

definition no_date_table :: csv_file where
  "no_date_table = Table [''Name'', ''Email''] [tl bob_fields]"

definition no_email_table :: csv_file where
  "no_email_table = Table [''Name'', ''DateOfBirth''] [butlast carol_fields]"

definition phone_header :: "string list" where
  "phone_header = [''Phone'', ''Name'', ''DateOfBirth'', ''Email'']"

definition phone_table :: csv_file where
  "phone_table = Table phone_header [Some ''555-0100'' # alice_fields]"

text \<open>
  The frame read from a file with the records of Alice with the unreadable date and of
  Bob: the whole date column is text.
\<close>

definition malformed_frame :: dataframe where
  "malformed_frame =
     \<lparr>columns = [''Name'', ''DateOfBirth'', ''Email''],
      dtypes = [(''Name'', Object), (''DateOfBirth'', Object), (''Email'', Object)],
      rows = [person ''Alice Smith'' (Str ''14th of Smarch'') ''alice@example.com'',
              person ''Bob Jones'' (Str ''1985-11-02'') ''bob@example.com'']\<rparr>"

text \<open>The frame read from a file that has the header row and no record.\<close>

definition header_only_frame :: dataframe where
  "header_only_frame =
     \<lparr>columns = [''Name'', ''DateOfBirth'', ''Email''],
      dtypes = [(''Name'', Object), (''DateOfBirth'', Object), (''Email'', Object)],
      rows = []\<rparr>"

definition mallory :: row where
  "mallory =
     person ''Mallory Fold'' (Timestamp \<lparr>year = 1991, month = 3, day = 14\<rparr>)
       (''mallory@example.com'' @ [CHR 0x0A] @ ''Bcc: all@example.com'')"

text \<open>
  The message composed from one-line addresses that the headers print back as they
  are, and the text Carol receives.
\<close>

definition composed :: "string \<Rightarrow> string \<Rightarrow> string \<Rightarrow> email_message" where
  "composed sender email name =
     \<lparr>msg_subject = birthday_subject,
      msg_from = sender,
      msg_to = email,
      msg_content = set_content (birthday_body name)\<rparr>"

definition carol_text :: string where
  "carol_text =
     ''    Dear Carol Diaz,'' @ [CHR 0x0A, CHR 0x0A]
     @ ''    Wishing you a very Happy Birthday! May your day be filled with joy, laughter, and unforgettable moments.''
     @ [CHR 0x0A, CHR 0x0A]
     @ ''    Best wishes,'' @ [CHR 0x0A]
     @ ''    Your Friendly Birthday Bot'' @ [CHR 0x0A]
     @ ''    '' @ [CHR 0x0A]"

text \<open>Relays: one that rejects the second message, and one that refuses the second connection.\<close>

definition second_rejected :: "nat \<Rightarrow> email_message \<Rightarrow> relay_outcome" where
  "second_rejected n m =
     (if n = 1 then SendRaises (Exn SMTPException ''(550, mailbox unavailable)'') else Accepted)"

definition second_refused :: "nat \<Rightarrow> email_message \<Rightarrow> relay_outcome" where
  "second_refused n m =
     (if n = 1 then ConnectRaises (Exn EnvironmentError ''[Errno 111] Connection refused'')
      else Accepted)"

definition with_relay :: "world \<Rightarrow> (nat \<Rightarrow> email_message \<Rightarrow> relay_outcome) \<Rightarrow> world" where
  "with_relay w answers = w\<lparr>relay := answers\<rparr>"

section \<open>The Birthday Filter\<close>

lemma select_by_mask: "map fst (filter snd (zip xs (map P xs))) = filter P xs"
  by (induction xs) auto

lemma month_day_mask:
  "series_and (series_eq (map dt_month (map (\<lambda>r. cell_of r n) rs)) m)
              (series_eq (map dt_day (map (\<lambda>r. cell_of r n) rs)) d)
   = map (\<lambda>r. dt_month (cell_of r n) = Some m \<and> dt_day (cell_of r n) = Some d) rs"
  by (induction rs) (simp_all add: series_and_def series_eq_def)

lemma has_birthday_components:
  "has_birthday t r =
     (dt_month (cell_of r ''DateOfBirth'') = Some (month t)
      \<and> dt_day (cell_of r ''DateOfBirth'') = Some (day t))"
  by (cases "cell_of r ''DateOfBirth''") (auto simp: has_birthday_def)


lemma filter_result:
  assumes "datetime_frame df"
  shows "get_todays_birthday_people w df =
           (Inr (df\<lparr>rows := filter (has_birthday (clock w)) (rows df)\<rparr>),
            w\<lparr>clock_reads := Suc (clock_reads w)\<rparr>)"
proof -
  let ?dates = "map (\<lambda>r. cell_of r ''DateOfBirth'') (rows df)"
  let ?keep = "series_and (series_eq (map dt_month ?dates) (month (clock w)))
                          (series_eq (map dt_day ?dates) (day (clock w)))"
  have column: "getitem_column df ''DateOfBirth'' = Inr (Datetime64, ?dates)"
    using assms by (simp add: getitem_column_def datetime_frame_def)
  have accessor: "dt_accessor (Datetime64, ?dates) = Inr ?dates"
    by (simp add: dt_accessor_def)
  have "(\<lambda>r. dt_month (cell_of r ''DateOfBirth'') = Some (month (clock w))
            \<and> dt_day (cell_of r ''DateOfBirth'') = Some (day (clock w)))
        = has_birthday (clock w)"
    by (rule ext) (simp add: has_birthday_components)
  then have keep: "?keep = map (has_birthday (clock w)) (rows df)"
    by (simp only: month_day_mask)
  have "boolean_index df ?keep = df\<lparr>rows := filter (has_birthday (clock w)) (rows df)\<rparr>"
    by (simp only: keep boolean_index_def select_by_mask)
  then show ?thesis
    by (simp only: get_todays_birthday_people_def datetime_now_def column accessor
        prod.case sum.case)
qed

lemma filter_world:
  "snd (get_todays_birthday_people w df) = w\<lparr>clock_reads := Suc (clock_reads w)\<rparr>"
  unfolding get_todays_birthday_people_def datetime_now_def
  by (cases "getitem_column df ''DateOfBirth''";
      cases "dt_accessor (projr (getitem_column df ''DateOfBirth''))") simp_all

lemma filter_reads_month_and_day:
  "month (clock w1) = month (clock w2) \<Longrightarrow> day (clock w1) = day (clock w2)
   \<Longrightarrow> fst (get_todays_birthday_people w1 df) = fst (get_todays_birthday_people w2 df)"
  unfolding get_todays_birthday_people_def datetime_now_def
  by (cases "getitem_column df ''DateOfBirth''";
      cases "dt_accessor (projr (getitem_column df ''DateOfBirth''))") simp_all

lemma leap_day_is_no_date:
  assumes "valid_date t" and "\<not> is_leap_year (year t)"
  shows "\<not> (month t = 2 \<and> day t = 29)"
proof
  assume "month t = 2 \<and> day t = 29"
  then have "days_in_month (year t) (month t) = 28" and "day t = 29"
    using assms(2) by (simp_all add: days_in_month_def)
  then show False
    using assms(1) by (simp add: valid_date_def)
qed

lemmas example_rows = person_def alice_def bob_def carol_def dave_def erin_def

lemma example_frame_ok: "datetime_frame (people_frame rs)"
  by (simp add: datetime_frame_def people_frame_def dtype_of_def)



text \<open>
  Claim C7. A row born on the 29th of February is never in the result when the clock
  shows a date of a year that is not a leap year, whatever that date is (the 28th of
  February and the 1st of March included): the filter returns, and the row is not among
  the rows returned.
\<close>

theorem leap_day_never_matches:
  assumes "datetime_frame df"
      and "valid_date (clock w)" and "\<not> is_leap_year (year (clock w))"
      and "cell_of r ''DateOfBirth'' = Timestamp d" and "month d = 2" and "day d = 29"
  shows "\<exists>out. fst (get_todays_birthday_people w df) = Inr out \<and> r \<notin> set (rows out)"
proof -
  have "\<not> has_birthday (clock w) r"
    using leap_day_is_no_date [OF assms(2,3)] assms(4,5,6) by (auto simp: has_birthday_def)
  then show ?thesis
    using assms(1) by (simp add: filter_result)
qed

theorem leap_day_never_matches_witness:
  "datetime_frame (people_frame [alice, dave])
   \<and> valid_date (clock (february_world [])) \<and> \<not> is_leap_year (year (clock (february_world [])))
   \<and> cell_of dave ''DateOfBirth'' = Timestamp \<lparr>year = 1996, month = 2, day = 29\<rparr>
   \<and> (\<exists>out. fst (get_todays_birthday_people (february_world []) (people_frame [alice, dave]))
              = Inr out \<and> dave \<notin> set (rows out))"
proof -
  have a: "datetime_frame (people_frame [alice, dave])"
    by (rule example_frame_ok)
  have b: "valid_date (clock (february_world []))"
    by (simp add: february_world_def march_world_def valid_date_def days_in_month_def
        is_leap_year_def)
  have c: "\<not> is_leap_year (year (clock (february_world [])))"
    by (simp add: february_world_def march_world_def is_leap_year_def)
  have d: "cell_of dave ''DateOfBirth'' = Timestamp \<lparr>year = 1996, month = 2, day = 29\<rparr>"
    by (simp add: cell_of_def example_rows)
  show ?thesis
    using leap_day_never_matches [OF a b c d] a b c d by simp
qed

text \<open>
  Claim C8, as the code has it. The filter has one parameter, the dataset, and reads the
  clock itself. Its result is determined by the dataset and the month and day the clock
  shows: two calls on the same dataset in worlds whose clocks agree on month and day
  return the same, whatever else differs between the worlds. The call changes nothing
  in the world; the model only counts the reading of the clock.
\<close>

theorem birthday_filter_reads_clock:
  "(month (clock w1) = month (clock w2) \<and> day (clock w1) = day (clock w2)
      \<longrightarrow> fst (get_todays_birthday_people w1 df) = fst (get_todays_birthday_people w2 df))
   \<and> snd (get_todays_birthday_people w df) = w\<lparr>clock_reads := Suc (clock_reads w)\<rparr>"
  using filter_reads_month_and_day [of w1 w2 df] filter_world [of w df] by blast

theorem birthday_filter_reads_clock_witness:
  "month (clock (march_world [])) = month (clock (no_address_world))
   \<and> day (clock (march_world [])) = day (clock (no_address_world))
   \<and> fst (get_todays_birthday_people (march_world []) (people_frame [alice, bob]))
     = fst (get_todays_birthday_people no_address_world (people_frame [alice, bob]))
   \<and> stdout (snd (get_todays_birthday_people (march_world []) (people_frame [alice, bob]))) = []
   \<and> smtp_log (snd (get_todays_birthday_people (march_world []) (people_frame [alice, bob]))) = []"
proof -
  have same: "month (clock (march_world [])) = month (clock (no_address_world))"
    "day (clock (march_world [])) = day (clock (no_address_world))"
    by (simp_all add: no_address_world_def march_world_def)
  have quiet: "stdout (march_world []) = []" "smtp_log (march_world []) = []"
    by (simp_all add: march_world_def)
  show ?thesis
    using birthday_filter_reads_clock
            [of "march_world []" no_address_world "people_frame [alice, bob]" "march_world []"]
          same quiet
    by simp
qed

text \<open>
  Claim C8, as stated, fails: the same dataset handed to the filter on the 14th of March
  and on the 2nd of November gives two different results, so the result is not a
  function of the arguments of the call.
\<close>

theorem birthday_filter_ambient_clock_counterexample:
  "fst (get_todays_birthday_people (march_world []) (people_frame [alice, bob]))
   \<noteq> fst (get_todays_birthday_people (november_world []) (people_frame [alice, bob]))"
proof -
  have ok: "datetime_frame (people_frame [alice, bob])"
    by (rule example_frame_ok)
  have march: "filter (has_birthday (clock (march_world []))) [alice, bob] = [alice]"
    by (simp add: march_world_def has_birthday_def cell_of_def example_rows)
  have november: "filter (has_birthday (clock (november_world []))) [alice, bob] = [bob]"
    by (simp add: november_world_def march_world_def has_birthday_def cell_of_def example_rows)
  have "alice \<noteq> bob"
    by (simp add: example_rows)
  moreover have "rows (people_frame [alice, bob]) = [alice, bob]"
    by (simp add: people_frame_def)
  ultimately show ?thesis
    by (simp only: filter_result [OF ok] march november fst_conv)
       (simp add: people_frame_def)
qed

section \<open>The startup stage\<close>

lemma load_env_world: "snd (load_env_variables w) = load_dotenv w"
  by (simp add: load_env_variables_def Let_def split: option.splits)

lemma load_env_raises:
  "fst (load_env_variables w) = Inl e \<Longrightarrow> e = credentials_error"
  by (simp add: load_env_variables_def Let_def split: option.splits if_splits)

lemma load_env_falsy:
  assumes "py_not (os_getenv (load_dotenv w) ''GMAIL_ADDRESS'')
           \<or> py_not (os_getenv (load_dotenv w) ''GMAIL_APP_PASSWORD'')"
  shows "fst (load_env_variables w) = Inl credentials_error"
  using assms by (auto simp: load_env_variables_def Let_def)

lemma load_env_returns:
  assumes "os_getenv (load_dotenv w) ''GMAIL_ADDRESS'' = Some a" and "a \<noteq> []"
      and "os_getenv (load_dotenv w) ''GMAIL_APP_PASSWORD'' = Some p" and "p \<noteq> []"
  shows "fst (load_env_variables w) = Inr (a, p)"
  using assms by (simp add: load_env_variables_def Let_def)

lemma read_birthdays_world:
  "snd (read_birthdays w path) = w\<lparr>csv_reads := csv_reads w @ [path]\<rparr>"
  by (simp add: read_birthdays_def pd_read_csv_def split: sum.splits)

lemma read_birthdays_result:
  "fst (read_birthdays w path) =
     (case read_csv_result w path of
        Inl e \<Rightarrow>
          (if class_of e = FileNotFoundError
           then Inl (Exn FileNotFoundError (''CSV file not found: '' @ path))
           else if class_of e = ParserError
           then Inl (Exn ParserError (''Error parsing CSV file: '' @ path))
           else Inl e)
      | Inr df \<Rightarrow>
          (if set required_columns \<subseteq> set (columns df) then Inr df
           else Inl (Exn ValueError (''CSV file must contain columns: '' @ required_columns_str w))))"
  by (simp add: read_birthdays_def pd_read_csv_def split: sum.splits)

lemma load_dotenv_fields [simp]:
  "files (load_dotenv w) = files w"
  "to_datetime (load_dotenv w) = to_datetime w"
  "address_header (load_dotenv w) = address_header w"
  "clock (load_dotenv w) = clock w"
  "relay (load_dotenv w) = relay w"
  "required_columns_str (load_dotenv w) = required_columns_str w"
  "stdout (load_dotenv w) = stdout w"
  "smtp_log (load_dotenv w) = smtp_log w"
  "smtp_sessions (load_dotenv w) = smtp_sessions w"
  "csv_reads (load_dotenv w) = csv_reads w"
  "clock_reads (load_dotenv w) = clock_reads w"
  by (simp_all add: load_dotenv_def)

lemma read_csv_result_load_dotenv [simp]:
  "read_csv_result (load_dotenv w) = read_csv_result w"
  by (rule ext) (simp add: read_csv_result_def split: csv_file.splits)

lemma main_try_credentials:
  assumes "fst (load_env_variables w) = Inl e"
  shows "main_try w = (Some e, load_dotenv w)"
proof -
  have "load_env_variables w = (Inl e, load_dotenv w)"
    using assms load_env_world [of w] by (metis prod.collapse)
  then show ?thesis by (simp add: main_try_def)
qed

lemma main_try_dataset:
  assumes "fst (load_env_variables w) = Inr c"
      and "fst (read_birthdays (load_dotenv w) ''birthdays.csv'') = Inl e"
  shows "main_try w = (Some e, (load_dotenv w)\<lparr>csv_reads := csv_reads w @ [''birthdays.csv'']\<rparr>)"
proof -
  have env: "load_env_variables w = (Inr c, load_dotenv w)"
    using assms(1) load_env_world [of w] by (metis prod.collapse)
  have "read_birthdays (load_dotenv w) ''birthdays.csv''
          = (Inl e, (load_dotenv w)\<lparr>csv_reads := csv_reads w @ [''birthdays.csv'']\<rparr>)"
    using assms(2) read_birthdays_world [of "load_dotenv w" "''birthdays.csv''"]
    by (metis prod.collapse load_dotenv_fields(10))
  with env show ?thesis by (cases c) (simp add: main_try_def)
qed

lemma main_try_loaded:
  assumes "fst (load_env_variables w) = Inr (a, p)"
      and "fst (read_birthdays (load_dotenv w) ''birthdays.csv'') = Inr df"
  shows "main_try w =
           (case get_todays_birthday_people
                   ((load_dotenv w)\<lparr>csv_reads := csv_reads w @ [''birthdays.csv'']\<rparr>) df of
              (Inl e, w3) \<Rightarrow> (Some e, w3)
            | (Inr birthday_people, w3) \<Rightarrow>
                (if df_empty birthday_people
                 then (None, print ''No birthdays today. Have a nice day!'' w3)
                 else wish_all w3 a p (rows birthday_people)))"
proof -
  have env: "load_env_variables w = (Inr (a, p), load_dotenv w)"
    using assms(1) load_env_world [of w] by (metis prod.collapse)
  have "read_birthdays (load_dotenv w) ''birthdays.csv''
          = (Inr df, (load_dotenv w)\<lparr>csv_reads := csv_reads w @ [''birthdays.csv'']\<rparr>)"
    using assms(2) read_birthdays_world [of "load_dotenv w" "''birthdays.csv''"]
    by (metis prod.collapse load_dotenv_fields(10))
  with env show ?thesis by (simp add: main_try_def)
qed

lemma main_try_startup_failure:
  assumes "startup_failure w = Some e"
  shows "fst (main_try w) = Some e \<and> stdout (snd (main_try w)) = stdout w
         \<and> smtp_log (snd (main_try w)) = smtp_log w
         \<and> smtp_sessions (snd (main_try w)) = smtp_sessions w"
proof (cases "fst (load_env_variables w)")
  case (Inl e')
  then show ?thesis
    using assms by (simp add: startup_failure_def main_try_credentials)
next
  case (Inr c)
  obtain a p where c: "c = (a, p)" by (cases c)
  show ?thesis
  proof (cases "fst (read_birthdays (load_dotenv w) ''birthdays.csv'')")
    case (Inl e')
    then have "e' = e"
      using assms Inr by (simp add: startup_failure_def split: prod.splits)
    then show ?thesis
      using Inr Inl by (simp add: main_try_dataset)
  next
    case df: (Inr df)
    let ?w2 = "(load_dotenv w)\<lparr>csv_reads := csv_reads w @ [''birthdays.csv'']\<rparr>"
    have rb: "read_birthdays (load_dotenv w) ''birthdays.csv'' = (Inr df, ?w2)"
      using df read_birthdays_world [of "load_dotenv w" "''birthdays.csv''"]
      by (metis prod.collapse load_dotenv_fields(10))
    have raised: "fst (get_todays_birthday_people ?w2 df) = Inl e"
      using assms Inr rb by (simp add: startup_failure_def split: sum.splits)
    have "get_todays_birthday_people ?w2 df = (Inl e, ?w2\<lparr>clock_reads := Suc (clock_reads ?w2)\<rparr>)"
      using raised filter_world [of ?w2 df] by (metis prod.collapse)
    then show ?thesis
      using Inr df c by (simp add: main_try_loaded)
  qed
qed

lemma main_startup_failure:
  assumes "startup_failure w = Some e" and "is_Exception e"
  shows "main w = (None, print (''Error: '' @ str_exn e) (snd (main_try w)))"
proof -
  obtain w1 where "main_try w = (Some e, w1)"
    using main_try_startup_failure [OF assms(1)] by (metis prod.collapse)
  then show ?thesis
    using assms(2) by (simp add: main_def)
qed

lemma print_fields [simp]:
  "stdout (print s w) = stdout w @ [s]"
  "smtp_log (print s w) = smtp_log w"
  "smtp_sessions (print s w) = smtp_sessions w"
  "csv_reads (print s w) = csv_reads w"
  "clock_reads (print s w) = clock_reads w"
  "relay (print s w) = relay w"
  by (simp_all add: print_def)

text \<open>
  Claim C3, as the code has it. When the startup stage ends with an exception (the
  credentials are missing, the dataset cannot be read or lacks a column, the filter
  rejects the date column), \<open>main\<close> prints one line, \<open>Error:\<close> and the text of the
  exception, opens no relay session, and returns: the process ends with status 0. When
  the exception is the one of the credentials, \<open>read_csv\<close> has not been called.
\<close>

theorem startup_failure_aborts:
  assumes "startup_failure w = Some e" and "is_Exception e"
  shows "fst (main w) = None
         \<and> stdout (snd (main w)) = stdout w @ [''Error: '' @ str_exn e]
         \<and> smtp_log (snd (main w)) = smtp_log w
         \<and> smtp_sessions (snd (main w)) = smtp_sessions w
         \<and> exit_status w = 0
         \<and> (fst (load_env_variables w) = Inl e \<longrightarrow> csv_reads (snd (main w)) = csv_reads w)"
proof -
  note m = main_startup_failure [OF assms]
  note t = main_try_startup_failure [OF assms(1)]
  have "fst (load_env_variables w) = Inl e \<Longrightarrow> csv_reads (snd (main w)) = csv_reads w"
    by (simp add: m main_try_credentials)
  then show ?thesis
    by (simp add: m t exit_status_def)
qed

lemma no_address_fails: "fst (load_env_variables no_address_world) = Inl credentials_error"
  by (rule load_env_falsy)
     (simp add: no_address_world_def march_world_def load_dotenv_def os_getenv_def)

theorem startup_failure_aborts_witness:
  "startup_failure no_address_world = Some credentials_error
   \<and> is_Exception credentials_error
   \<and> stdout (snd (main no_address_world))
       = [''Error: GMAIL_ADDRESS or GMAIL_APP_PASSWORD not found in environment variables.'']
   \<and> smtp_log (snd (main no_address_world)) = []
   \<and> csv_reads (snd (main no_address_world)) = []
   \<and> exit_status no_address_world = 0"
proof -
  have f: "startup_failure no_address_world = Some credentials_error"
    by (simp add: startup_failure_def no_address_fails)
  have e: "is_Exception credentials_error"
    by (simp add: is_Exception_def credentials_error_def)
  have base: "stdout no_address_world = []" "smtp_log no_address_world = []"
    "csv_reads no_address_world = []"
    by (simp_all add: no_address_world_def march_world_def)
  show ?thesis
    using startup_failure_aborts [OF f e] f e no_address_fails base
    by (simp add: credentials_error_def)
qed

text \<open>
  Claim C3, as stated, fails: with no \<open>GMAIL_ADDRESS\<close> the credentials cannot be loaded,
  and the exit status of the process is 0.
\<close>

theorem startup_failure_exit_status_counterexample:
  "fst (load_env_variables no_address_world) = Inl credentials_error
   \<and> exit_status no_address_world = 0"
proof -
  have "main_try no_address_world = (Some credentials_error, load_dotenv no_address_world)"
    by (rule main_try_credentials) (rule no_address_fails)
  then have "fst (main no_address_world) = None"
    by (simp add: main_def is_Exception_def credentials_error_def)
  then show ?thesis
    by (simp add: exit_status_def no_address_fails)
qed

text \<open>
  Claim C10. When \<open>GMAIL_ADDRESS\<close> or \<open>GMAIL_APP_PASSWORD\<close> reads as the empty string,
  \<open>load_env_variables\<close> raises the error it raises when that variable is removed from
  the environment and from the \<open>.env\<close> file, and \<open>main\<close> does not call \<open>read_csv\<close>.
\<close>

theorem empty_credential_as_missing:
  assumes "name = ''GMAIL_ADDRESS'' \<or> name = ''GMAIL_APP_PASSWORD''"
      and "os_getenv (load_dotenv w) name = Some []"
  shows "fst (load_env_variables w) = Inl credentials_error
         \<and> fst (load_env_variables
                  (w\<lparr>environ := (environ w)(name := None),
                     dotenv_file := (dotenv_file w)(name := None)\<rparr>))
             = Inl credentials_error
         \<and> csv_reads (snd (main w)) = csv_reads w"
proof -
  let ?v = "w\<lparr>environ := (environ w)(name := None), dotenv_file := (dotenv_file w)(name := None)\<rparr>"
  have present: "fst (load_env_variables w) = Inl credentials_error"
    using assms by (intro load_env_falsy) auto
  have "os_getenv (load_dotenv ?v) name = None"
    by (simp add: os_getenv_def load_dotenv_def map_add_def)
  then have missing: "fst (load_env_variables ?v) = Inl credentials_error"
    using assms(1) by (intro load_env_falsy) auto
  have "main w = (None, print (''Error: '' @ str_exn credentials_error) (load_dotenv w))"
    using present
    by (simp add: main_def main_try_credentials is_Exception_def credentials_error_def)
  then show ?thesis
    using present missing by simp
qed

theorem empty_credential_as_missing_witness:
  "os_getenv (load_dotenv empty_password_world) ''GMAIL_APP_PASSWORD'' = Some []
   \<and> fst (load_env_variables empty_password_world) = Inl credentials_error
   \<and> csv_reads (snd (main empty_password_world)) = []"
proof -
  have e: "os_getenv (load_dotenv empty_password_world) ''GMAIL_APP_PASSWORD'' = Some []"
    by (simp add: empty_password_world_def march_world_def os_getenv_def load_dotenv_def)
  have "csv_reads empty_password_world = []"
    by (simp add: empty_password_world_def march_world_def)
  then show ?thesis
    using empty_credential_as_missing [of "''GMAIL_APP_PASSWORD''" empty_password_world] e
    by simp
qed

section \<open>The Record Source\<close>

lemma with_file_fields [simp]:
  "files (with_file w f) ''birthdays.csv'' = f"
  "to_datetime (with_file w f) = to_datetime w"
  "stdout (with_file w f) = stdout w"
  "smtp_log (with_file w f) = smtp_log w"
  "smtp_sessions (with_file w f) = smtp_sessions w"
  "clock_reads (with_file w f) = clock_reads w"
  "csv_reads (with_file w f) = csv_reads w"
  "clock (with_file w f) = clock w"
  "relay (with_file w f) = relay w"
  "required_columns_str (with_file w f) = required_columns_str w"
  "address_header (with_file w f) = address_header w"
  "dotenv_file (with_file w f) = dotenv_file w"
  "environ (with_file w f) = environ w"
  by (simp_all add: with_file_def)

lemma march_world_fields [simp]:
  "stdout (march_world rs) = []"
  "smtp_log (march_world rs) = []"
  "smtp_sessions (march_world rs) = 0"
  "csv_reads (march_world rs) = []"
  "clock_reads (march_world rs) = 0"
  "clock (march_world rs) = \<lparr>year = 2025, month = 3, day = 14\<rparr>"
  "to_datetime (march_world rs) = example_dates"
  "address_header (march_world rs) = (\<lambda>text. text)"
  "relay (march_world rs) = (\<lambda>n m. Accepted)"
  "files (march_world rs) ''birthdays.csv'' = Table standard_header rs"
  by (simp_all add: march_world_def)

lemma march_world_set_text:
  "required_columns_str (march_world rs)
     = ''{'' @ py_repr ''Name'' @ '', '' @ py_repr ''DateOfBirth'' @ '', '' @ py_repr ''Email'' @ ''}''"
  by (simp add: march_world_def)

lemma march_credentials:
  "dotenv_file w = dotenv_file (march_world rs) \<Longrightarrow> environ w = environ (march_world rs)
   \<Longrightarrow> fst (load_env_variables w) = Inr (''bot@gmail.com'', ''app-secret'')"
  by (rule load_env_returns) (simp_all add: os_getenv_def load_dotenv_def march_world_def)

lemma object_frame_rejected:
  assumes "''DateOfBirth'' \<in> set (columns df)" and "dtype_of df ''DateOfBirth'' = Object"
  shows "fst (get_todays_birthday_people w df)
           = Inl (Exn AttributeError ''Can only use .dt accessor with datetimelike values'')"
  using assms
  by (simp add: get_todays_birthday_people_def datetime_now_def getitem_column_def
      dt_accessor_def)

lemma main_try_before_filter:
  assumes "fst (read_birthdays (load_dotenv w) ''birthdays.csv'') = Inl e"
  shows "clock_reads (snd (main_try w)) = clock_reads w
         \<and> smtp_log (snd (main_try w)) = smtp_log w
         \<and> (\<exists>e'. fst (main_try w) = Some e')"
proof (cases "fst (load_env_variables w)")
  case (Inl e')
  then show ?thesis by (simp add: main_try_credentials)
next
  case (Inr c)
  then show ?thesis using assms by (simp add: main_try_dataset)
qed

lemma main_fields_after_error:
  assumes "fst (main_try w) = Some e"
  shows "clock_reads (snd (main w)) = clock_reads (snd (main_try w))
         \<and> smtp_log (snd (main w)) = smtp_log (snd (main_try w))"
proof -
  obtain w1 where "main_try w = (Some e, w1)"
    using assms by (metis prod.collapse)
  then show ?thesis by (simp add: main_def)
qed

subsection \<open>The frame of a table\<close>

lemma frame_columns [simp]: "columns (frame_of_table parse header records) = header"
  by (simp add: frame_of_table_def Let_def)

lemma frame_rows:
  "rows (frame_of_table parse header records)
     = map (record_row parse
              (date_dtype parse (map (\<lambda>r. field_of header r ''DateOfBirth'') records)) header)
           records"
  by (simp add: frame_of_table_def Let_def)

lemma labelled_lookup:
  "map_of (map (\<lambda>name. (name, f name)) names) k = (if k \<in> set names then Some (f k) else None)"
  by (induction names) auto

lemma frame_date_dtype:
  assumes "''DateOfBirth'' \<in> set header"
  shows "dtype_of (frame_of_table parse header records) ''DateOfBirth''
           = date_dtype parse (map (\<lambda>r. field_of header r ''DateOfBirth'') records)"
  using assms by (simp add: frame_of_table_def Let_def dtype_of_def labelled_lookup)

lemma record_row_date_cell:
  assumes "''DateOfBirth'' \<in> set header"
  shows "cell_of (record_row parse t header r) ''DateOfBirth''
           = date_cell parse t (field_of header r ''DateOfBirth'')"
  using assms by (simp add: record_row_def cell_of_def labelled_lookup)

lemma undated_column:
  assumes "entry \<in> set records" and "field_of header entry ''DateOfBirth'' = Some s"
      and "parse s = None"
  shows "date_dtype parse (map (\<lambda>r. field_of header r ''DateOfBirth'') records) = Object"
proof -
  have "\<not> is_date_field parse (field_of header entry ''DateOfBirth'')"
    using assms(2,3) by (simp add: is_date_field_def)
  then have "\<not> list_all (is_date_field parse) (map (\<lambda>r. field_of header r ''DateOfBirth'') records)"
    using assms(1) by (auto simp: list_all_iff)
  then show ?thesis by (simp add: date_dtype_def)
qed

lemma dated_column:
  assumes "entry \<in> set records"
      and "list_all (is_date_field parse) (map (\<lambda>r. field_of header r ''DateOfBirth'') records)"
  shows "date_dtype parse (map (\<lambda>r. field_of header r ''DateOfBirth'') records) = Datetime64"
  using assms by (auto simp: date_dtype_def)

lemma read_table:
  assumes "files w path = Table header records"
  shows "fst (read_birthdays w path) =
           (if ''DateOfBirth'' \<notin> set header
            then Inl (Exn ValueError
                   (''Missing column provided to '' @ py_repr ''parse_dates'' @ '': ''
                    @ py_repr ''DateOfBirth''))
            else if ''Name'' \<notin> set header \<or> ''Email'' \<notin> set header
            then Inl (Exn ValueError (''CSV file must contain columns: '' @ required_columns_str w))
            else Inr (frame_of_table (to_datetime w) header records))"
  using assms by (auto simp: read_birthdays_result read_csv_result_def required_columns_def)

lemma example_frames:
  "frame_of_table example_dates standard_header [alice_fields] = people_frame [alice]"
  "frame_of_table example_dates standard_header [alice_fields, carol_fields, erin_fields]
     = people_frame [alice, carol, erin]"
  "frame_of_table example_dates standard_header [carol_fields, erin_fields, alice_fields]
     = people_frame [carol, erin, alice]"
  "frame_of_table example_dates standard_header [smarch_fields, bob_fields] = malformed_frame"
  "frame_of_table example_dates standard_header [] = header_only_frame"
  "frame_of_table example_dates standard_header [alice_fields, frank_fields]
     = people_frame [alice, frank]"
  "record_row example_dates Datetime64 standard_header frank_fields = frank"
  by (simp_all add: frame_of_table_def Let_def date_dtype_def is_date_field_def example_dates_def
      field_of_def fields_def record_row_def date_cell_def text_cell_def standard_header_def
      people_frame_def malformed_frame_def header_only_frame_def person_def
      alice_def carol_def erin_def alice_fields_def carol_fields_def erin_fields_def
      smarch_fields_def bob_fields_def frank_fields_def frank_def)

subsection \<open>Missing columns\<close>

text \<open>
  Claim C4. For a file with a header row: when the header has no column \<open>DateOfBirth\<close>,
  \<open>read_csv\<close> raises a \<open>ValueError\<close> and \<open>read_birthdays\<close> passes it on; when it has that
  column and no column \<open>Name\<close> or no column \<open>Email\<close>, \<open>read_birthdays\<close> raises its own
  \<open>ValueError\<close>. Either way the whole dataset is refused, and when the file is
  \<open>birthdays.csv\<close>, \<open>main\<close> has not read the clock (the filter has not run) and has
  opened no relay session. A header that has the three columns is accepted with all its
  records, whatever other columns it has.
\<close>

theorem missing_column_schema_error:
  assumes "files w path = Table header records"
  shows "(''DateOfBirth'' \<notin> set header
            \<longrightarrow> fst (read_birthdays w path)
                  = Inl (Exn ValueError
                      (''Missing column provided to '' @ py_repr ''parse_dates'' @ '': ''
                       @ py_repr ''DateOfBirth'')))
         \<and> (''DateOfBirth'' \<in> set header \<and> (''Name'' \<notin> set header \<or> ''Email'' \<notin> set header)
            \<longrightarrow> fst (read_birthdays w path)
                  = Inl (Exn ValueError
                      (''CSV file must contain columns: '' @ required_columns_str w)))
         \<and> (''Name'' \<in> set header \<and> ''DateOfBirth'' \<in> set header \<and> ''Email'' \<in> set header
            \<longrightarrow> fst (read_birthdays w path) = Inr (frame_of_table (to_datetime w) header records)
                \<and> columns (frame_of_table (to_datetime w) header records) = header
                \<and> length (rows (frame_of_table (to_datetime w) header records)) = length records)
         \<and> (path = ''birthdays.csv''
              \<and> (''Name'' \<notin> set header \<or> ''DateOfBirth'' \<notin> set header \<or> ''Email'' \<notin> set header)
            \<longrightarrow> clock_reads (snd (main w)) = clock_reads w \<and> smtp_log (snd (main w)) = smtp_log w)"
proof -
  have before: "clock_reads (snd (main w)) = clock_reads w \<and> smtp_log (snd (main w)) = smtp_log w"
    if p: "path = ''birthdays.csv''"
      and m: "''Name'' \<notin> set header \<or> ''DateOfBirth'' \<notin> set header \<or> ''Email'' \<notin> set header"
  proof -
    have f: "files (load_dotenv w) ''birthdays.csv'' = Table header records"
      using assms p by simp
    have "isl (fst (read_birthdays (load_dotenv w) ''birthdays.csv''))"
      using m by (auto simp: read_table [OF f])
    then obtain e where "fst (read_birthdays (load_dotenv w) ''birthdays.csv'') = Inl e"
      by (cases "fst (read_birthdays (load_dotenv w) ''birthdays.csv'')") auto
    from main_try_before_filter [OF this] show ?thesis
      using main_fields_after_error [of w] by auto
  qed
  show ?thesis
    using before by (auto simp: read_table [OF assms] frame_rows)
qed

theorem missing_column_schema_error_witness:
  "fst (read_birthdays (with_file (march_world []) no_name_table) ''birthdays.csv'')
     = Inl (Exn ValueError
         (''CSV file must contain columns: {'' @ py_repr ''Name'' @ '', '' @ py_repr ''DateOfBirth''
          @ '', '' @ py_repr ''Email'' @ ''}''))
   \<and> fst (read_birthdays (with_file (march_world []) no_email_table) ''birthdays.csv'')
     = Inl (Exn ValueError
         (''CSV file must contain columns: {'' @ py_repr ''Name'' @ '', '' @ py_repr ''DateOfBirth''
          @ '', '' @ py_repr ''Email'' @ ''}''))
   \<and> fst (read_birthdays (with_file (march_world []) no_date_table) ''birthdays.csv'')
     = Inl (Exn ValueError
         (''Missing column provided to '' @ py_repr ''parse_dates'' @ '': ''
          @ py_repr ''DateOfBirth''))
   \<and> clock_reads (snd (main (with_file (march_world []) no_name_table))) = 0
   \<and> smtp_log (snd (main (with_file (march_world []) no_name_table))) = []
   \<and> clock_reads (snd (main (with_file (march_world []) no_date_table))) = 0
   \<and> clock_reads (snd (main (with_file (march_world []) no_email_table))) = 0
   \<and> fst (read_birthdays (with_file (march_world []) phone_table) ''birthdays.csv'')
     = Inr (frame_of_table example_dates phone_header [Some ''555-0100'' # alice_fields])
   \<and> columns (frame_of_table example_dates phone_header [Some ''555-0100'' # alice_fields])
     = phone_header
   \<and> length (rows (frame_of_table example_dates phone_header [Some ''555-0100'' # alice_fields]))
     = 1"
proof -
  have n: "files (with_file (march_world []) no_name_table) ''birthdays.csv''
             = Table [''DateOfBirth'', ''Email''] [tl alice_fields]"
    by (simp add: no_name_table_def)
  have d: "files (with_file (march_world []) no_date_table) ''birthdays.csv''
             = Table [''Name'', ''Email''] [tl bob_fields]"
    by (simp add: no_date_table_def)
  have e: "files (with_file (march_world []) no_email_table) ''birthdays.csv''
             = Table [''Name'', ''DateOfBirth''] [butlast carol_fields]"
    by (simp add: no_email_table_def)
  have p: "files (with_file (march_world []) phone_table) ''birthdays.csv''
             = Table phone_header [Some ''555-0100'' # alice_fields]"
    by (simp add: phone_table_def)
  show ?thesis
    using missing_column_schema_error [OF n] missing_column_schema_error [OF d]
      missing_column_schema_error [OF e] missing_column_schema_error [OF p]
    by (simp add: march_world_set_text phone_header_def)
qed

subsection \<open>Failures of the load, and dates that are no dates\<close>

lemma unread_date_run:
  assumes c: "\<not> isl (fst (load_env_variables w))"
      and f: "files w ''birthdays.csv'' = Table header records"
      and h: "''Name'' \<in> set header" "''DateOfBirth'' \<in> set header" "''Email'' \<in> set header"
      and o: "dtype_of (frame_of_table (to_datetime w) header records) ''DateOfBirth'' = Object"
  shows "fst (main w) = None
         \<and> stdout (snd (main w))
           = stdout w @ [''Error: Can only use .dt accessor with datetimelike values'']
         \<and> smtp_log (snd (main w)) = smtp_log w"
proof -
  let ?a = "Exn AttributeError ''Can only use .dt accessor with datetimelike values''"
  let ?df = "frame_of_table (to_datetime w) header records"
  obtain cr where cr: "fst (load_env_variables w) = Inr cr"
    using c by (cases "fst (load_env_variables w)") auto
  have f': "files (load_dotenv w) ''birthdays.csv'' = Table header records"
    using f by simp
  have rb: "read_birthdays (load_dotenv w) ''birthdays.csv''
              = (Inr ?df, (load_dotenv w)\<lparr>csv_reads := csv_reads w @ [''birthdays.csv'']\<rparr>)"
    using h read_birthdays_world [of "load_dotenv w" "''birthdays.csv''"] read_table [OF f']
    by (simp add: prod_eq_iff)
  have "''DateOfBirth'' \<in> set (columns ?df)"
    using h by simp
  then have "startup_failure w = Some ?a"
    using cr rb object_frame_rejected [OF _ o] by (simp add: startup_failure_def)
  moreover have "is_Exception ?a"
    by (simp add: is_Exception_def)
  ultimately show ?thesis
    using main_startup_failure [of w ?a] main_try_startup_failure [of w ?a] by simp
qed

text \<open>
  Claim C5, as the code has it. \<open>read_birthdays\<close> surfaces three kinds of failure: no
  file as a \<open>FileNotFoundError\<close>, a file whose rows cannot be tokenized as a
  \<open>ParserError\<close>, a header that lacks one of the three columns as a \<open>ValueError\<close>. A
  date that is no date does not fail the load. When a record has a text in the date
  column that is read as no date, every record is loaded, the whole date column stays
  text with dtype \<open>object\<close>, and it is the filter that raises, an \<open>AttributeError\<close>: a
  run on such a file prints that one error and opens no relay session. When a record has
  no date and the other dates are read, the frame is loaded with \<open>NaT\<close> in that row, and
  the filter returns without that row, whatever the clock shows.
\<close>

theorem record_source_failures:
  fixes w v :: world and header :: "string list" and records :: "string option list list"
  defines "df \<equiv> frame_of_table (to_datetime w) header records"
  shows "(files w path = NoSuchFile
            \<longrightarrow> fst (read_birthdays w path)
                  = Inl (Exn FileNotFoundError (''CSV file not found: '' @ path)))
         \<and> (files w path = Untokenizable m
            \<longrightarrow> fst (read_birthdays w path)
                  = Inl (Exn ParserError (''Error parsing CSV file: '' @ path)))
         \<and> (files w path = Table header records
              \<and> (''Name'' \<notin> set header \<or> ''DateOfBirth'' \<notin> set header \<or> ''Email'' \<notin> set header)
            \<longrightarrow> raised_class (fst (read_birthdays w path)) = Some ValueError)
         \<and> (files w path = Table header records
              \<and> ''Name'' \<in> set header \<and> ''DateOfBirth'' \<in> set header \<and> ''Email'' \<in> set header
              \<and> entry \<in> set records \<and> field_of header entry ''DateOfBirth'' = Some s
              \<and> to_datetime w s = None
            \<longrightarrow> fst (read_birthdays w path) = Inr df
                \<and> length (rows df) = length records
                \<and> dtype_of df ''DateOfBirth'' = Object
                \<and> map (\<lambda>r. cell_of r ''DateOfBirth'') (rows df)
                  = map (\<lambda>r. text_cell (field_of header r ''DateOfBirth'')) records
                \<and> fst (get_todays_birthday_people v df)
                  = Inl (Exn AttributeError ''Can only use .dt accessor with datetimelike values'')
                \<and> (path = ''birthdays.csv'' \<and> \<not> isl (fst (load_env_variables w))
                    \<longrightarrow> fst (main w) = None
                        \<and> stdout (snd (main w))
                          = stdout w @ [''Error: Can only use .dt accessor with datetimelike values'']
                        \<and> smtp_log (snd (main w)) = smtp_log w))
         \<and> (files w path = Table header records
              \<and> ''Name'' \<in> set header \<and> ''DateOfBirth'' \<in> set header \<and> ''Email'' \<in> set header
              \<and> entry \<in> set records \<and> field_of header entry ''DateOfBirth'' = None
              \<and> list_all (is_date_field (to_datetime w))
                    (map (\<lambda>r. field_of header r ''DateOfBirth'') records)
            \<longrightarrow> fst (read_birthdays w path) = Inr df
                \<and> length (rows df) = length records
                \<and> dtype_of df ''DateOfBirth'' = Datetime64
                \<and> record_row (to_datetime w) Datetime64 header entry \<in> set (rows df)
                \<and> cell_of (record_row (to_datetime w) Datetime64 header entry) ''DateOfBirth'' = NaT
                \<and> (\<exists>out. fst (get_todays_birthday_people v df) = Inr out
                          \<and> record_row (to_datetime w) Datetime64 header entry \<notin> set (rows out)))"
proof -
  let ?dates = "map (\<lambda>r. field_of header r ''DateOfBirth'') records"
  have missing: "raised_class (fst (read_birthdays w path)) = Some ValueError"
    if "files w path = Table header records"
      and "''Name'' \<notin> set header \<or> ''DateOfBirth'' \<notin> set header \<or> ''Email'' \<notin> set header"
    using that by (auto simp: read_table raised_class_def)
  have unread: "fst (read_birthdays w path) = Inr df
                \<and> length (rows df) = length records
                \<and> dtype_of df ''DateOfBirth'' = Object
                \<and> map (\<lambda>r. cell_of r ''DateOfBirth'') (rows df)
                  = map (\<lambda>r. text_cell (field_of header r ''DateOfBirth'')) records
                \<and> fst (get_todays_birthday_people v df)
                  = Inl (Exn AttributeError ''Can only use .dt accessor with datetimelike values'')
                \<and> (path = ''birthdays.csv'' \<and> \<not> isl (fst (load_env_variables w))
                    \<longrightarrow> fst (main w) = None
                        \<and> stdout (snd (main w))
                          = stdout w @ [''Error: Can only use .dt accessor with datetimelike values'']
                        \<and> smtp_log (snd (main w)) = smtp_log w)"
    if f: "files w path = Table header records"
      and h: "''Name'' \<in> set header" "''DateOfBirth'' \<in> set header" "''Email'' \<in> set header"
      and r: "entry \<in> set records" "field_of header entry ''DateOfBirth'' = Some s"
        "to_datetime w s = None"
  proof -
    have t: "date_dtype (to_datetime w) ?dates = Object"
      using undated_column [of entry records header s "to_datetime w"] r by simp
    have o: "dtype_of df ''DateOfBirth'' = Object"
      using h(2) t by (simp add: df_def frame_date_dtype)
    have cells: "map (\<lambda>r. cell_of r ''DateOfBirth'') (rows df)
                   = map (\<lambda>r. text_cell (field_of header r ''DateOfBirth'')) records"
      using h(2) by (simp add: df_def frame_rows t record_row_date_cell date_cell_def)
    have col: "''DateOfBirth'' \<in> set (columns df)"
      using h(2) by (simp add: df_def)
    have run: "fst (main w) = None
                \<and> stdout (snd (main w))
                  = stdout w @ [''Error: Can only use .dt accessor with datetimelike values'']
                \<and> smtp_log (snd (main w)) = smtp_log w"
      if "path = ''birthdays.csv''" and "\<not> isl (fst (load_env_variables w))"
      using unread_date_run [OF that(2) _ h] f that(1) o by (simp add: df_def)
    show ?thesis
      using h run o cells object_frame_rejected [OF col o, of v]
      by (simp add: read_table [OF f] df_def frame_rows)
  qed
  have undated: "fst (read_birthdays w path) = Inr df
                \<and> length (rows df) = length records
                \<and> dtype_of df ''DateOfBirth'' = Datetime64
                \<and> record_row (to_datetime w) Datetime64 header entry \<in> set (rows df)
                \<and> cell_of (record_row (to_datetime w) Datetime64 header entry) ''DateOfBirth'' = NaT
                \<and> (\<exists>out. fst (get_todays_birthday_people v df) = Inr out
                          \<and> record_row (to_datetime w) Datetime64 header entry \<notin> set (rows out))"
    if f: "files w path = Table header records"
      and h: "''Name'' \<in> set header" "''DateOfBirth'' \<in> set header" "''Email'' \<in> set header"
      and r: "entry \<in> set records" "field_of header entry ''DateOfBirth'' = None"
      and a: "list_all (is_date_field (to_datetime w)) ?dates"
  proof -
    let ?row = "record_row (to_datetime w) Datetime64 header entry"
    have t: "date_dtype (to_datetime w) ?dates = Datetime64"
      using dated_column [of entry records "to_datetime w" header] r(1) a by simp
    have d: "dtype_of df ''DateOfBirth'' = Datetime64"
      using h(2) t by (simp add: df_def frame_date_dtype)
    have frame: "datetime_frame df"
      using h(2) d by (simp add: datetime_frame_def df_def)
    have member: "?row \<in> set (rows df)"
      using r(1) by (simp add: df_def frame_rows t)
    have nat: "cell_of ?row ''DateOfBirth'' = NaT"
      using h(2) r(2) by (simp add: record_row_date_cell date_cell_def)
    then have "\<not> has_birthday (clock v) ?row"
      by (simp add: has_birthday_def)
    then have "\<exists>out. fst (get_todays_birthday_people v df) = Inr out \<and> ?row \<notin> set (rows out)"
      by (simp add: filter_result [OF frame])
    then show ?thesis
      using h d member nat by (simp add: read_table [OF f] df_def frame_rows)
  qed
  show ?thesis
    apply (intro conjI)
    subgoal by (simp add: read_birthdays_result read_csv_result_def)
    subgoal by (simp add: read_birthdays_result read_csv_result_def)
    subgoal using missing by blast
    subgoal using unread by blast
    subgoal using undated by blast
    done
qed

lemma standard_header_names:
  "''Name'' \<in> set standard_header" "''DateOfBirth'' \<in> set standard_header"
  "''Email'' \<in> set standard_header"
  by (simp_all add: standard_header_def)

theorem record_source_failures_witness:
  "fst (read_birthdays (with_file (march_world []) NoSuchFile) ''birthdays.csv'')
     = Inl (Exn FileNotFoundError ''CSV file not found: birthdays.csv'')
   \<and> fst (read_birthdays
            (with_file (march_world []) (Untokenizable ''Error tokenizing data. C error: Expected 3 fields in line 3, saw 5''))
            ''birthdays.csv'')
     = Inl (Exn ParserError ''Error parsing CSV file: birthdays.csv'')
   \<and> raised_class (fst (read_birthdays (with_file (march_world []) no_email_table) ''birthdays.csv''))
     = Some ValueError
   \<and> fst (read_birthdays (march_world [smarch_fields, bob_fields]) ''birthdays.csv'')
     = Inr malformed_frame
   \<and> dtype_of malformed_frame ''DateOfBirth'' = Object
   \<and> fst (get_todays_birthday_people (march_world []) malformed_frame)
     = Inl (Exn AttributeError ''Can only use .dt accessor with datetimelike values'')
   \<and> stdout (snd (main (march_world [smarch_fields, bob_fields])))
     = [''Error: Can only use .dt accessor with datetimelike values'']
   \<and> smtp_log (snd (main (march_world [smarch_fields, bob_fields]))) = []
   \<and> fst (read_birthdays (march_world [alice_fields, frank_fields]) ''birthdays.csv'')
     = Inr (people_frame [alice, frank])
   \<and> cell_of frank ''DateOfBirth'' = NaT
   \<and> (\<exists>out. fst (get_todays_birthday_people (march_world []) (people_frame [alice, frank]))
                = Inr out
              \<and> frank \<notin> set (rows out))"
proof -
  let ?t = "Untokenizable ''Error tokenizing data. C error: Expected 3 fields in line 3, saw 5''"
  have none: "files (with_file (march_world []) NoSuchFile) ''birthdays.csv'' = NoSuchFile"
    by simp
  have tok: "files (with_file (march_world []) ?t) ''birthdays.csv'' = ?t"
    by simp
  have email: "files (with_file (march_world []) no_email_table) ''birthdays.csv''
                 = Table [''Name'', ''DateOfBirth''] [butlast carol_fields]"
    by (simp add: no_email_table_def)
  have smarch: "field_of standard_header smarch_fields ''DateOfBirth'' = Some ''14th of Smarch''"
    "example_dates ''14th of Smarch'' = None"
    by (simp_all add: field_of_def standard_header_def smarch_fields_def fields_def
        example_dates_def)
  have creds: "\<not> isl (fst (load_env_variables (march_world [smarch_fields, bob_fields])))"
    using march_credentials [of "march_world [smarch_fields, bob_fields]" "[smarch_fields, bob_fields]"]
    by simp
  have undated: "field_of standard_header frank_fields ''DateOfBirth'' = None"
    "list_all (is_date_field example_dates)
       (map (\<lambda>r. field_of standard_header r ''DateOfBirth'') [alice_fields, frank_fields])"
    by (simp_all add: field_of_def standard_header_def frank_fields_def alice_fields_def fields_def
        is_date_field_def example_dates_def)
  show ?thesis
    using record_source_failures
            [of "with_file (march_world []) NoSuchFile" "''birthdays.csv''"]
          record_source_failures
            [of "with_file (march_world []) ?t" "''birthdays.csv''"
                "''Error tokenizing data. C error: Expected 3 fields in line 3, saw 5''"]
          record_source_failures
            [of "with_file (march_world []) no_email_table" "''birthdays.csv''" _
                "[''Name'', ''DateOfBirth'']" "[butlast carol_fields]"]
          record_source_failures
            [of "march_world [smarch_fields, bob_fields]" "''birthdays.csv''" _
                standard_header "[smarch_fields, bob_fields]" smarch_fields "''14th of Smarch''"
                "march_world []"]
          record_source_failures
            [of "march_world [alice_fields, frank_fields]" "''birthdays.csv''" _
                standard_header "[alice_fields, frank_fields]" frank_fields _ "march_world []"]
          none tok email smarch creds undated standard_header_names
    by (simp add: example_frames)
qed

text \<open>
  Claim C5, as stated, fails. A file whose first record has the date \<open>14th of Smarch\<close>
  is loaded: \<open>read_birthdays\<close> returns the frame, with that text in it. A file in which
  Frank has no date is loaded too, and on the 14th of March the filter returns Alice
  alone: the row without a date is passed over in silence. And a file of zero bytes,
  which is no table, does not give a \<open>ParserError\<close>: the \<open>EmptyDataError\<close> of \<open>read_csv\<close>
  leaves \<open>read_birthdays\<close> as it is.
\<close>

theorem malformed_date_loads_counterexample:
  "fst (read_birthdays (march_world [smarch_fields, bob_fields]) ''birthdays.csv'')
     = Inr malformed_frame
   \<and> cell_of (hd (rows malformed_frame)) ''DateOfBirth'' = Str ''14th of Smarch''
   \<and> fst (read_birthdays (march_world [alice_fields, frank_fields]) ''birthdays.csv'')
     = Inr (people_frame [alice, frank])
   \<and> fst (get_todays_birthday_people (march_world []) (people_frame [alice, frank]))
     = Inr (people_frame [alice])
   \<and> fst (read_birthdays (with_file (march_world []) EmptyFile) ''birthdays.csv'')
     = Inl (Exn EmptyDataError ''No columns to parse from file'')"
proof -
  have g: "files (march_world [alice_fields, frank_fields]) ''birthdays.csv''
             = Table standard_header [alice_fields, frank_fields]"
    by simp
  have undated: "fst (read_birthdays (march_world [alice_fields, frank_fields]) ''birthdays.csv'')
                   = Inr (people_frame [alice, frank])"
    by (simp add: read_table [OF g] standard_header_names example_frames)
  have kept: "filter (has_birthday (clock (march_world []))) [alice, frank] = [alice]"
    by (simp add: has_birthday_def cell_of_def alice_def frank_def person_def)
  have "rows (people_frame [alice, frank]) = [alice, frank]"
    by (simp add: people_frame_def)
  then have passed: "fst (get_todays_birthday_people (march_world []) (people_frame [alice, frank]))
                  = Inr (people_frame [alice])"
    by (simp only: filter_result [OF example_frame_ok] kept fst_conv)
       (simp add: people_frame_def)
  have f: "files (march_world [smarch_fields, bob_fields]) ''birthdays.csv''
             = Table standard_header [smarch_fields, bob_fields]"
    by simp
  have "fst (read_birthdays (march_world [smarch_fields, bob_fields]) ''birthdays.csv'')
          = Inr malformed_frame"
    by (simp add: read_table [OF f] standard_header_names example_frames)
  moreover have "cell_of (hd (rows malformed_frame)) ''DateOfBirth'' = Str ''14th of Smarch''"
    by (simp add: malformed_frame_def cell_of_def person_def)
  moreover have "fst (read_birthdays (with_file (march_world []) EmptyFile) ''birthdays.csv'')
                   = Inl (Exn EmptyDataError ''No columns to parse from file'')"
    by (simp add: read_birthdays_result read_csv_result_def)
  ultimately show ?thesis using undated passed by blast
qed

subsection \<open>The dataset without records\<close>

lemma main_no_match:
  assumes c: "\<not> isl (fst (load_env_variables w))"
      and r: "fst (read_birthdays (load_dotenv w) ''birthdays.csv'') = Inr df"
      and d: "datetime_frame df"
      and n: "filter (has_birthday (clock w)) (rows df) = []"
  shows "fst (main w) = None
         \<and> stdout (snd (main w)) = stdout w @ [''No birthdays today. Have a nice day!'']
         \<and> smtp_log (snd (main w)) = smtp_log w"
proof -
  obtain a p where cr: "fst (load_env_variables w) = Inr (a, p)"
    using c by (cases "fst (load_env_variables w)") auto
  let ?w2 = "(load_dotenv w)\<lparr>csv_reads := csv_reads w @ [''birthdays.csv'']\<rparr>"
  have "get_todays_birthday_people ?w2 df
          = (Inr (df\<lparr>rows := []\<rparr>), ?w2\<lparr>clock_reads := Suc (clock_reads ?w2)\<rparr>)"
    using n by (simp add: filter_result [OF d])
  then have "main_try w
               = (None, print ''No birthdays today. Have a nice day!''
                          (?w2\<lparr>clock_reads := Suc (clock_reads ?w2)\<rparr>))"
    by (simp add: main_try_loaded [OF cr r] df_empty_def)
  then show ?thesis
    by (simp add: main_def)
qed

lemma november_world_fields [simp]:
  "stdout (november_world rs) = []"
  "smtp_log (november_world rs) = []"
  "clock (november_world rs) = \<lparr>year = 2025, month = 11, day = 2\<rparr>"
  "to_datetime (november_world rs) = example_dates"
  "files (november_world rs) ''birthdays.csv'' = Table standard_header rs"
  "dotenv_file (november_world rs) = dotenv_file (march_world rs)"
  "environ (november_world rs) = environ (march_world rs)"
  by (simp_all add: november_world_def)

text \<open>
  Claim C6 against the code. A file \<open>birthdays.csv\<close> that has the header row and no
  record is loaded as a frame without rows, whose date column has dtype \<open>object\<close>. On
  that frame the filter raises an \<open>AttributeError\<close>, and the run prints an \<open>Error:\<close>
  line. A run on a file with one record that does not match takes the other path and
  prints the line the script has for an empty result.
\<close>

theorem header_only_dataset_raises:
  "fst (read_birthdays (load_dotenv (march_world [])) ''birthdays.csv'') = Inr header_only_frame
   \<and> rows header_only_frame = []
   \<and> fst (get_todays_birthday_people (march_world []) header_only_frame)
     = Inl (Exn AttributeError ''Can only use .dt accessor with datetimelike values'')
   \<and> stdout (snd (main (march_world [])))
     = [''Error: Can only use .dt accessor with datetimelike values'']
   \<and> stdout (snd (main (november_world [alice_fields])))
     = [''No birthdays today. Have a nice day!'']"
proof -
  have f: "files (load_dotenv (march_world [])) ''birthdays.csv'' = Table standard_header []"
    by simp
  have loaded: "fst (read_birthdays (load_dotenv (march_world [])) ''birthdays.csv'')
                  = Inr header_only_frame"
    by (simp add: read_table [OF f] standard_header_names example_frames)
  have object: "dtype_of header_only_frame ''DateOfBirth'' = Object"
    "''DateOfBirth'' \<in> set (columns header_only_frame)"
    by (simp_all add: header_only_frame_def dtype_of_def)
  have raises: "fst (get_todays_birthday_people (march_world []) header_only_frame)
                  = Inl (Exn AttributeError ''Can only use .dt accessor with datetimelike values'')"
    by (rule object_frame_rejected [OF object(2,1)])
  have creds: "\<not> isl (fst (load_env_variables (march_world [])))"
    using march_credentials [of "march_world []" "[]"] by simp
  have "dtype_of (frame_of_table (to_datetime (march_world [])) standard_header []) ''DateOfBirth''
          = Object"
    by (simp add: example_frames object)
  from unread_date_run [OF creds _ standard_header_names this]
  have error: "stdout (snd (main (march_world [])))
                 = [''Error: Can only use .dt accessor with datetimelike values'']"
    by simp
  have creds': "\<not> isl (fst (load_env_variables (november_world [alice_fields])))"
    using march_credentials [of "november_world [alice_fields]" "[alice_fields]"] by simp
  have f': "files (load_dotenv (november_world [alice_fields])) ''birthdays.csv''
              = Table standard_header [alice_fields]"
    by simp
  have loaded': "fst (read_birthdays (load_dotenv (november_world [alice_fields])) ''birthdays.csv'')
                   = Inr (people_frame [alice])"
    by (simp add: read_table [OF f'] standard_header_names example_frames)
  have none: "filter (has_birthday (clock (november_world [alice_fields]))) (rows (people_frame [alice]))
                = []"
    by (simp add: people_frame_def has_birthday_def cell_of_def alice_def person_def)
  from main_no_match [OF creds' loaded' example_frame_ok none]
  have quiet: "stdout (snd (main (november_world [alice_fields])))
                 = [''No birthdays today. Have a nice day!'']"
    by simp
  show ?thesis
    using loaded raises error quiet by (simp add: header_only_frame_def)
qed

section \<open>The Notifier\<close>

lemma smtp_session_eq:
  "smtp_session w ''smtp.gmail.com'' 465 user password m
     = (raised (relay w (smtp_sessions w) m), after_session w user password m)"
  by (cases "relay w (smtp_sessions w) m") (simp_all add: smtp_session_def after_session_def)

lemma after_session_fields [simp]:
  "relay (after_session w u p m) = relay w"
  "address_header (after_session w u p m) = address_header w"
  "stdout (after_session w u p m) = stdout w"
  "smtp_sessions (after_session w u p m) = Suc (smtp_sessions w)"
  "smtp_log (after_session w u p m)
     = smtp_log w @ session_log (relay w (smtp_sessions w) m) u p m"
  "csv_reads (after_session w u p m) = csv_reads w"
  "clock_reads (after_session w u p m) = clock_reads w"
  by (simp_all add: after_session_def)

lemma print_address_header [simp]: "address_header (print s w) = address_header w"
  by (simp add: print_def)

lemma with_relay_fields [simp]:
  "relay (with_relay w a) = a"
  "stdout (with_relay w a) = stdout w"
  "smtp_log (with_relay w a) = smtp_log w"
  "smtp_sessions (with_relay w a) = smtp_sessions w"
  "clock_reads (with_relay w a) = clock_reads w"
  "csv_reads (with_relay w a) = csv_reads w"
  "clock (with_relay w a) = clock w"
  "files (with_relay w a) = files w"
  "to_datetime (with_relay w a) = to_datetime w"
  "address_header (with_relay w a) = address_header w"
  "required_columns_str (with_relay w a) = required_columns_str w"
  "dotenv_file (with_relay w a) = dotenv_file w"
  "environ (with_relay w a) = environ w"
  by (simp_all add: with_relay_def)

subsection \<open>One iteration of the loop\<close>

lemma person_cells:
  "getitem_row (person n b e) ''Email'' = Inr (Str e)"
  "getitem_row (person n b e) ''Name'' = Inr (Str n)"
  by (simp_all add: getitem_row_def person_def)

lemma compose_one_line:
  assumes "length (str_splitlines sender) \<le> 1" and "length (str_splitlines email) \<le> 1"
      and "address_header w = (\<lambda>text. text)"
  shows "create_birthday_email w sender email name = Inr (composed sender email name)"
  using assms by (simp add: create_birthday_email_def header_store_def composed_def)

lemma compose_broken_address:
  assumes "length (str_splitlines sender) \<le> 1" and "1 < length (str_splitlines email)"
  shows "create_birthday_email w sender email name
           = Inl (Exn ValueError
               ''Header values may not contain linefeed or carriage return characters'')"
  using assms by (simp add: create_birthday_email_def header_store_def)

lemma wish_person_sent:
  assumes "create_birthday_email w s e n = Inr m"
      and "relay w (smtp_sessions w) m = Accepted"
  shows "wish_person w s p (person n b e)
           = (None, print (''Successfully sent birthday email to '' @ n @ '' ('' @ e @ '')'')
                      (after_session w s p m))"
  using assms
  by (simp add: wish_person_def person_cells send_email_def smtp_session_eq success_line_def)

lemma wish_person_smtp_failure:
  assumes "create_birthday_email w s e n = Inr m"
      and "raised (relay w (smtp_sessions w) m) = Some x" and "class_of x = SMTPException"
  shows "wish_person w s p (person n b e)
           = (None, print (''Failed to send email to '' @ msg_to m @ '': '' @ str_exn x)
                      (after_session w s p m))"
  using assms
  by (simp add: wish_person_def person_cells send_email_def smtp_session_eq)

lemma wish_person_other_failure:
  assumes "create_birthday_email w s e n = Inr m"
      and "raised (relay w (smtp_sessions w) m) = Some x" and "class_of x \<noteq> SMTPException"
  shows "wish_person w s p (person n b e) = (Some x, after_session w s p m)"
  using assms
  by (simp add: wish_person_def person_cells send_email_def smtp_session_eq)

lemma wish_person_compose_failure:
  assumes "create_birthday_email w s e n = Inl x" and "class_of x \<noteq> SMTPException"
  shows "wish_person w s p (person n b e) = (Some x, w)"
  using assms by (simp add: wish_person_def person_cells)

lemma one_line_texts:
  "length (str_splitlines ''bot@gmail.com'') \<le> 1"
  "length (str_splitlines ''alice@example.com'') \<le> 1"
  "length (str_splitlines ''carol@example.com'') \<le> 1"
  "length (str_splitlines ''erin@example.com'') \<le> 1"
  by (simp_all add: str_splitlines_def str_break_def)

lemma two_line_text:
  "1 < length (str_splitlines (''mallory@example.com'' @ [CHR 0x0A] @ ''Bcc: all@example.com''))"
  by (simp add: str_splitlines_def str_break_def)

lemma carol_content: "set_content (birthday_body ''Carol Diaz'') = carol_text"
  by (simp add: set_content_def bytes_splitlines_def bytes_break_def birthday_body_def
      carol_text_def)

subsection \<open>Runs with matched people\<close>

lemma main_try_matched:
  assumes cr: "fst (load_env_variables w) = Inr (a, p)"
      and rb: "fst (read_birthdays (load_dotenv w) ''birthdays.csv'') = Inr df"
      and df: "datetime_frame df"
      and ne: "filter (has_birthday (clock w)) (rows df) \<noteq> []"
  shows "main_try w =
           wish_all ((load_dotenv w)\<lparr>csv_reads := csv_reads w @ [''birthdays.csv''],
                                    clock_reads := Suc (clock_reads w)\<rparr>)
             a p (filter (has_birthday (clock w)) (rows df))"
proof -
  have "columns df \<noteq> []"
    using df by (auto simp: datetime_frame_def)
  then show ?thesis
    using ne by (simp add: main_try_loaded [OF cr rb] filter_result [OF df] df_empty_def)
qed

lemma march_main_try:
  assumes "dotenv_file w = dotenv_file (march_world rs)"
      and "environ w = environ (march_world rs)"
      and "files w ''birthdays.csv'' = Table standard_header rs"
      and "to_datetime w = example_dates"
      and "clock w = \<lparr>year = 2025, month = 3, day = 14\<rparr>"
      and "frame_of_table example_dates standard_header rs = people_frame people"
      and "filter (has_birthday \<lparr>year = 2025, month = 3, day = 14\<rparr>) people = people"
      and "people \<noteq> []"
  shows "main_try w =
           wish_all ((load_dotenv w)\<lparr>csv_reads := csv_reads w @ [''birthdays.csv''],
                                    clock_reads := Suc (clock_reads w)\<rparr>)
             ''bot@gmail.com'' ''app-secret'' people"
proof -
  have f: "files (load_dotenv w) ''birthdays.csv'' = Table standard_header rs"
    using assms(3) by simp
  have rb: "fst (read_birthdays (load_dotenv w) ''birthdays.csv'') = Inr (people_frame people)"
    using assms(4,6) by (simp add: read_table [OF f] standard_header_names)
  have rows: "rows (people_frame people) = people"
    by (simp add: people_frame_def)
  show ?thesis
    using main_try_matched [OF march_credentials [OF assms(1,2)] rb example_frame_ok]
      assms(5,7,8) rows
    by simp
qed

lemma march_matches:
  "has_birthday \<lparr>year = 2025, month = 3, day = 14\<rparr> alice"
  "has_birthday \<lparr>year = 2025, month = 3, day = 14\<rparr> carol"
  "has_birthday \<lparr>year = 2025, month = 3, day = 14\<rparr> erin"
  "has_birthday \<lparr>year = 2025, month = 3, day = 14\<rparr> mallory"
  by (simp_all add: has_birthday_def cell_of_def alice_def carol_def erin_def mallory_def
      person_def)

lemma main_after_fatal:
  assumes "main_try w = (Some e, w1)" and "is_Exception e"
  shows "main w = (None, print (''Error: '' @ str_exn e) w1)"
  using assms by (simp add: main_def)

lemma main_after_loop:
  assumes "main_try w = (None, w1)"
  shows "main w = (None, w1)"
  using assms by (simp add: main_def)

lemma refused_is_fatal:
  "class_of (Exn EnvironmentError ''[Errno 111] Connection refused'') \<noteq> SMTPException"
  "is_Exception (Exn EnvironmentError ''[Errno 111] Connection refused'')"
  by (simp_all add: is_Exception_def)

lemma mallory_frame:
  "frame_of_table example_dates standard_header [mallory_fields, carol_fields]
     = people_frame [mallory, carol]"
  by (simp add: frame_of_table_def Let_def date_dtype_def is_date_field_def example_dates_def
      field_of_def fields_def record_row_def date_cell_def text_cell_def standard_header_def
      people_frame_def person_def mallory_def carol_def mallory_fields_def carol_fields_def)

subsection \<open>A refused connection\<close>

lemma refused_run:
  assumes frame: "frame_of_table example_dates standard_header [f1, f2, f3]
                    = people_frame [person n1 b1 e1, person n2 b2 e2, person n3 b3 e3]"
      and match: "filter (has_birthday \<lparr>year = 2025, month = 3, day = 14\<rparr>)
                    [person n1 b1 e1, person n2 b2 e2, person n3 b3 e3]
                  = [person n1 b1 e1, person n2 b2 e2, person n3 b3 e3]"
      and lines: "length (str_splitlines e1) \<le> 1" "length (str_splitlines e2) \<le> 1"
  shows "main (with_relay (march_world [f1, f2, f3]) second_refused)
           = (None,
              print ''Error: [Errno 111] Connection refused''
                (after_session
                   (print (''Successfully sent birthday email to '' @ n1 @ '' ('' @ e1 @ '')'')
                      (after_session
                         ((load_dotenv (with_relay (march_world [f1, f2, f3]) second_refused))
                            \<lparr>csv_reads := [''birthdays.csv''], clock_reads := Suc 0\<rparr>)
                         ''bot@gmail.com'' ''app-secret''
                         (composed ''bot@gmail.com'' e1 n1)))
                   ''bot@gmail.com'' ''app-secret'' (composed ''bot@gmail.com'' e2 n2)))"
proof -
  let ?W = "with_relay (march_world [f1, f2, f3]) second_refused"
  let ?e = "Exn EnvironmentError ''[Errno 111] Connection refused''"
  let ?s = "''bot@gmail.com''"
  let ?p = "''app-secret''"
  let ?w3 = "(load_dotenv ?W)\<lparr>csv_reads := [''birthdays.csv''], clock_reads := Suc 0\<rparr>"
  let ?m1 = "composed ?s e1 n1"
  let ?m2 = "composed ?s e2 n2"
  let ?w4 = "print (''Successfully sent birthday email to '' @ n1 @ '' ('' @ e1 @ '')'')
               (after_session ?w3 ?s ?p ?m1)"
  let ?w5 = "after_session ?w4 ?s ?p ?m2"
  have run: "main_try ?W
               = wish_all ?w3 ?s ?p [person n1 b1 e1, person n2 b2 e2, person n3 b3 e3]"
    using march_main_try [of ?W "[f1, f2, f3]", OF _ _ _ _ _ frame match] by simp
  have c1: "create_birthday_email ?w3 ?s e1 n1 = Inr ?m1"
    by (rule compose_one_line [OF one_line_texts(1) lines(1)]) simp
  have first: "wish_person ?w3 ?s ?p (person n1 b1 e1) = (None, ?w4)"
    by (rule wish_person_sent [OF c1]) (simp add: second_refused_def)
  have c2: "create_birthday_email ?w4 ?s e2 n2 = Inr ?m2"
    by (rule compose_one_line [OF one_line_texts(1) lines(2)]) simp
  have second: "wish_person ?w4 ?s ?p (person n2 b2 e2) = (Some ?e, ?w5)"
    by (rule wish_person_other_failure [OF c2]) (simp_all add: second_refused_def)
  have "main_try ?W = (Some ?e, ?w5)"
    by (simp only: run wish_all.simps first second prod.case option.case)
  then show ?thesis
    using main_after_fatal [of ?W ?e ?w5] refused_is_fatal(2) by simp
qed

lemma rejected_run:
  "main (with_relay (march_world [alice_fields, carol_fields, erin_fields]) second_rejected)
     = (None,
        print ''Successfully sent birthday email to Erin Park (erin@example.com)''
          (after_session
             (print ''Failed to send email to carol@example.com: (550, mailbox unavailable)''
                (after_session
                   (print ''Successfully sent birthday email to Alice Smith (alice@example.com)''
                      (after_session
                         ((load_dotenv
                             (with_relay (march_world [alice_fields, carol_fields, erin_fields])
                                second_rejected))
                            \<lparr>csv_reads := [''birthdays.csv''], clock_reads := Suc 0\<rparr>)
                         ''bot@gmail.com'' ''app-secret''
                         (composed ''bot@gmail.com'' ''alice@example.com'' ''Alice Smith'')))
                   ''bot@gmail.com'' ''app-secret''
                   (composed ''bot@gmail.com'' ''carol@example.com'' ''Carol Diaz'')))
             ''bot@gmail.com'' ''app-secret''
             (composed ''bot@gmail.com'' ''erin@example.com'' ''Erin Park'')))"
proof -
  let ?W = "with_relay (march_world [alice_fields, carol_fields, erin_fields]) second_rejected"
  let ?x = "Exn SMTPException ''(550, mailbox unavailable)''"
  let ?s = "''bot@gmail.com''"
  let ?p = "''app-secret''"
  let ?w3 = "(load_dotenv ?W)\<lparr>csv_reads := [''birthdays.csv''], clock_reads := Suc 0\<rparr>"
  let ?m1 = "composed ?s ''alice@example.com'' ''Alice Smith''"
  let ?m2 = "composed ?s ''carol@example.com'' ''Carol Diaz''"
  let ?m3 = "composed ?s ''erin@example.com'' ''Erin Park''"
  let ?w4 = "print ''Successfully sent birthday email to Alice Smith (alice@example.com)''
               (after_session ?w3 ?s ?p ?m1)"
  let ?w5 = "print ''Failed to send email to carol@example.com: (550, mailbox unavailable)''
               (after_session ?w4 ?s ?p ?m2)"
  let ?w6 = "print ''Successfully sent birthday email to Erin Park (erin@example.com)''
               (after_session ?w5 ?s ?p ?m3)"
  have run: "main_try ?W = wish_all ?w3 ?s ?p [alice, carol, erin]"
    using march_main_try [of ?W "[alice_fields, carol_fields, erin_fields]" "[alice, carol, erin]"]
    by (simp add: example_frames march_matches)
  have c1: "create_birthday_email ?w3 ?s ''alice@example.com'' ''Alice Smith'' = Inr ?m1"
    by (rule compose_one_line [OF one_line_texts(1,2)]) simp
  have first: "wish_person ?w3 ?s ?p alice = (None, ?w4)"
    unfolding alice_def
    using wish_person_sent [OF c1, of ?p] by (simp add: second_rejected_def)
  have c2: "create_birthday_email ?w4 ?s ''carol@example.com'' ''Carol Diaz'' = Inr ?m2"
    by (rule compose_one_line [OF one_line_texts(1,3)]) simp
  have second: "wish_person ?w4 ?s ?p carol = (None, ?w5)"
    unfolding carol_def
    using wish_person_smtp_failure [OF c2, of ?x ?p]
    by (simp add: second_rejected_def composed_def)
  have c3: "create_birthday_email ?w5 ?s ''erin@example.com'' ''Erin Park'' = Inr ?m3"
    by (rule compose_one_line [OF one_line_texts(1,4)]) simp
  have third: "wish_person ?w5 ?s ?p erin = (None, ?w6)"
    unfolding erin_def
    using wish_person_sent [OF c3, of ?p] by (simp add: second_rejected_def)
  have "main_try ?W = (None, ?w6)"
    by (simp only: run wish_all.simps first second third prod.case option.case)
  then show ?thesis
    by (rule main_after_loop)
qed

lemma broken_address_run:
  "main (march_world [mallory_fields, carol_fields])
     = (None,
        print ''Error: Header values may not contain linefeed or carriage return characters''
          ((load_dotenv (march_world [mallory_fields, carol_fields]))
             \<lparr>csv_reads := [''birthdays.csv''], clock_reads := Suc 0\<rparr>))"
proof -
  let ?W = "march_world [mallory_fields, carol_fields]"
  let ?x = "Exn ValueError ''Header values may not contain linefeed or carriage return characters''"
  let ?w3 = "(load_dotenv ?W)\<lparr>csv_reads := [''birthdays.csv''], clock_reads := Suc 0\<rparr>"
  have run: "main_try ?W = wish_all ?w3 ''bot@gmail.com'' ''app-secret'' [mallory, carol]"
    using march_main_try [of ?W "[mallory_fields, carol_fields]" "[mallory, carol]"]
    by (simp add: mallory_frame march_matches)
  have c1: "create_birthday_email ?w3 ''bot@gmail.com''
              (''mallory@example.com'' @ [CHR 0x0A] @ ''Bcc: all@example.com'') ''Mallory Fold''
              = Inl ?x"
    by (rule compose_broken_address [OF one_line_texts(1) two_line_text])
  have first: "wish_person ?w3 ''bot@gmail.com'' ''app-secret'' mallory = (Some ?x, ?w3)"
    unfolding mallory_def
    by (rule wish_person_compose_failure [OF c1]) simp
  have "main_try ?W = (Some ?x, ?w3)"
    by (simp only: run wish_all.simps first prod.case option.case)
  then show ?thesis
    using main_after_fatal [of ?W ?x ?w3] by (simp add: is_Exception_def)
qed

lemma march_frames_unfolded:
  "frame_of_table example_dates standard_header [alice_fields, carol_fields, erin_fields]
     = people_frame
         [person ''Alice Smith'' (Timestamp \<lparr>year = 1990, month = 3, day = 14\<rparr>) ''alice@example.com'',
          person ''Carol Diaz'' (Timestamp \<lparr>year = 2000, month = 3, day = 14\<rparr>) ''carol@example.com'',
          person ''Erin Park'' (Timestamp \<lparr>year = 1988, month = 3, day = 14\<rparr>) ''erin@example.com'']"
  "frame_of_table example_dates standard_header [carol_fields, erin_fields, alice_fields]
     = people_frame
         [person ''Carol Diaz'' (Timestamp \<lparr>year = 2000, month = 3, day = 14\<rparr>) ''carol@example.com'',
          person ''Erin Park'' (Timestamp \<lparr>year = 1988, month = 3, day = 14\<rparr>) ''erin@example.com'',
          person ''Alice Smith'' (Timestamp \<lparr>year = 1990, month = 3, day = 14\<rparr>) ''alice@example.com'']"
  using example_frames(2,3) by (simp_all add: alice_def carol_def erin_def)

lemma march_matches_unfolded:
  "has_birthday \<lparr>year = 2025, month = 3, day = 14\<rparr>
     (person ''Alice Smith'' (Timestamp \<lparr>year = 1990, month = 3, day = 14\<rparr>) ''alice@example.com'')"
  "has_birthday \<lparr>year = 2025, month = 3, day = 14\<rparr>
     (person ''Carol Diaz'' (Timestamp \<lparr>year = 2000, month = 3, day = 14\<rparr>) ''carol@example.com'')"
  "has_birthday \<lparr>year = 2025, month = 3, day = 14\<rparr>
     (person ''Erin Park'' (Timestamp \<lparr>year = 1988, month = 3, day = 14\<rparr>) ''erin@example.com'')"
  using march_matches(1,2,3) by (simp_all add: alice_def carol_def erin_def)

lemma all_match:
  "fst (get_todays_birthday_people (with_relay (march_world rs) a) (people_frame [r1, r2, r3]))
     = Inr (people_frame [r1, r2, r3])"
  if "has_birthday \<lparr>year = 2025, month = 3, day = 14\<rparr> r1"
    "has_birthday \<lparr>year = 2025, month = 3, day = 14\<rparr> r2"
    "has_birthday \<lparr>year = 2025, month = 3, day = 14\<rparr> r3"
  using that by (simp add: filter_result [OF example_frame_ok]) (simp add: people_frame_def)

lemma loaded_three:
  "fst (read_birthdays (with_relay (march_world rs) a) ''birthdays.csv'')
     = Inr (frame_of_table example_dates standard_header rs)"
proof -
  have f: "files (with_relay (march_world rs) a) ''birthdays.csv'' = Table standard_header rs"
    by simp
  show ?thesis
    by (simp add: read_table [OF f] standard_header_names)
qed

text \<open>
  Claim C2 against the code. The file has three records, all matched on the 14th of
  March, and the relay refuses the connection of the second session with an \<open>OSError\<close>.
  The run prints the success of the first recipient and one \<open>Error:\<close> line that names no
  recipient, and opens two sessions: the third recipient is never tried. When instead
  the second session raises an \<open>SMTPException\<close>, the run prints three lines, the second
  one the failure tagged with the address, and opens three sessions. A failure while
  composing ends the batch as the refused connection does: with a line break in the
  address of the first of two recipients, the run prints one \<open>Error:\<close> line and opens no
  session.
\<close>

theorem refused_connection_aborts_batch:
  "fst (read_birthdays (with_relay (march_world [alice_fields, carol_fields, erin_fields]) second_refused)
          ''birthdays.csv'')
     = Inr (people_frame [alice, carol, erin])
   \<and> fst (get_todays_birthday_people
            (with_relay (march_world [alice_fields, carol_fields, erin_fields]) second_refused)
            (people_frame [alice, carol, erin]))
     = Inr (people_frame [alice, carol, erin])
   \<and> stdout (snd (main (with_relay (march_world [alice_fields, carol_fields, erin_fields])
                         second_refused)))
     = [''Successfully sent birthday email to Alice Smith (alice@example.com)'',
        ''Error: [Errno 111] Connection refused'']
   \<and> smtp_sessions (snd (main (with_relay (march_world [alice_fields, carol_fields, erin_fields])
                                second_refused))) = 2
   \<and> stdout (snd (main (with_relay (march_world [alice_fields, carol_fields, erin_fields])
                         second_rejected)))
     = [''Successfully sent birthday email to Alice Smith (alice@example.com)'',
        ''Failed to send email to carol@example.com: (550, mailbox unavailable)'',
        ''Successfully sent birthday email to Erin Park (erin@example.com)'']
   \<and> smtp_sessions (snd (main (with_relay (march_world [alice_fields, carol_fields, erin_fields])
                                second_rejected))) = 3
   \<and> stdout (snd (main (march_world [mallory_fields, carol_fields])))
     = [''Error: Header values may not contain linefeed or carriage return characters'']
   \<and> smtp_sessions (snd (main (march_world [mallory_fields, carol_fields]))) = 0"
proof -
  have match: "filter (has_birthday \<lparr>year = 2025, month = 3, day = 14\<rparr>)
         [person ''Alice Smith'' (Timestamp \<lparr>year = 1990, month = 3, day = 14\<rparr>) ''alice@example.com'',
          person ''Carol Diaz'' (Timestamp \<lparr>year = 2000, month = 3, day = 14\<rparr>) ''carol@example.com'',
          person ''Erin Park'' (Timestamp \<lparr>year = 1988, month = 3, day = 14\<rparr>) ''erin@example.com'']
       = [person ''Alice Smith'' (Timestamp \<lparr>year = 1990, month = 3, day = 14\<rparr>) ''alice@example.com'',
          person ''Carol Diaz'' (Timestamp \<lparr>year = 2000, month = 3, day = 14\<rparr>) ''carol@example.com'',
          person ''Erin Park'' (Timestamp \<lparr>year = 1988, month = 3, day = 14\<rparr>) ''erin@example.com'']"
    by (simp add: march_matches_unfolded)
  note refused = refused_run [OF march_frames_unfolded(1) match one_line_texts(2,3)]
  have a: "stdout (snd (main (with_relay (march_world [alice_fields, carol_fields, erin_fields])
                                second_refused)))
             = [''Successfully sent birthday email to Alice Smith (alice@example.com)'',
                ''Error: [Errno 111] Connection refused'']"
    by (simp only: refused snd_conv) simp
  have b: "smtp_sessions (snd (main (with_relay (march_world [alice_fields, carol_fields, erin_fields])
                                        second_refused))) = 2"
    by (simp only: refused snd_conv) simp
  have c: "stdout (snd (main (with_relay (march_world [alice_fields, carol_fields, erin_fields])
                                second_rejected)))
     = [''Successfully sent birthday email to Alice Smith (alice@example.com)'',
        ''Failed to send email to carol@example.com: (550, mailbox unavailable)'',
        ''Successfully sent birthday email to Erin Park (erin@example.com)'']"
    by (simp only: rejected_run snd_conv) simp
  have d: "smtp_sessions (snd (main (with_relay (march_world [alice_fields, carol_fields, erin_fields])
                                        second_rejected))) = 3"
    by (simp only: rejected_run snd_conv) simp
  have e: "stdout (snd (main (march_world [mallory_fields, carol_fields])))
     = [''Error: Header values may not contain linefeed or carriage return characters'']"
    by (simp only: broken_address_run snd_conv) simp
  have f: "smtp_sessions (snd (main (march_world [mallory_fields, carol_fields]))) = 0"
    by (simp only: broken_address_run snd_conv) simp
  show ?thesis
    using a b c d e f
    by (simp add: loaded_three example_frames all_match march_matches)
qed

text \<open>
  Claim C9 against the code. The file has the records of Carol, Erin and Alice, all
  matched, and the relay refuses the connection of the second session. The calls made
  to the relay are one whole session for Carol, with the fixed host and port, the
  credentials, and the message composed for her (the fixed subject, the sender, her
  address, the fixed text around her name), then the connection for Erin and nothing
  more: two sessions for three matched records, and no message for Alice.
\<close>

theorem refused_connection_skips_recipient:
  "fst (read_birthdays (with_relay (march_world [carol_fields, erin_fields, alice_fields]) second_refused)
          ''birthdays.csv'')
     = Inr (people_frame [carol, erin, alice])
   \<and> fst (get_todays_birthday_people
            (with_relay (march_world [carol_fields, erin_fields, alice_fields]) second_refused)
            (people_frame [carol, erin, alice]))
     = Inr (people_frame [carol, erin, alice])
   \<and> smtp_log (snd (main (with_relay (march_world [carol_fields, erin_fields, alice_fields])
                           second_refused)))
     = [Connect ''smtp.gmail.com'' 465,
        Login ''bot@gmail.com'' ''app-secret'',
        SendMessage \<lparr>msg_subject = birthday_subject, msg_from = ''bot@gmail.com'',
                     msg_to = ''carol@example.com'', msg_content = carol_text\<rparr>,
        Connect ''smtp.gmail.com'' 465]
   \<and> smtp_sessions (snd (main (with_relay (march_world [carol_fields, erin_fields, alice_fields])
                                second_refused))) = 2"
proof -
  have match: "filter (has_birthday \<lparr>year = 2025, month = 3, day = 14\<rparr>)
         [person ''Carol Diaz'' (Timestamp \<lparr>year = 2000, month = 3, day = 14\<rparr>) ''carol@example.com'',
          person ''Erin Park'' (Timestamp \<lparr>year = 1988, month = 3, day = 14\<rparr>) ''erin@example.com'',
          person ''Alice Smith'' (Timestamp \<lparr>year = 1990, month = 3, day = 14\<rparr>) ''alice@example.com'']
       = [person ''Carol Diaz'' (Timestamp \<lparr>year = 2000, month = 3, day = 14\<rparr>) ''carol@example.com'',
          person ''Erin Park'' (Timestamp \<lparr>year = 1988, month = 3, day = 14\<rparr>) ''erin@example.com'',
          person ''Alice Smith'' (Timestamp \<lparr>year = 1990, month = 3, day = 14\<rparr>) ''alice@example.com'']"
    by (simp add: march_matches_unfolded)
  note refused = refused_run [OF march_frames_unfolded(2) match one_line_texts(3,4)]
  have a: "smtp_log (snd (main (with_relay (march_world [carol_fields, erin_fields, alice_fields])
                                  second_refused)))
     = [Connect ''smtp.gmail.com'' 465,
        Login ''bot@gmail.com'' ''app-secret'',
        SendMessage \<lparr>msg_subject = birthday_subject, msg_from = ''bot@gmail.com'',
                     msg_to = ''carol@example.com'', msg_content = carol_text\<rparr>,
        Connect ''smtp.gmail.com'' 465]"
    by (simp only: refused snd_conv) (simp add: second_refused_def composed_def carol_content)
  have b: "smtp_sessions (snd (main (with_relay (march_world [carol_fields, erin_fields, alice_fields])
                                        second_refused))) = 2"
    by (simp only: refused snd_conv) simp
  show ?thesis
    using a b by (simp add: loaded_three example_frames all_match march_matches)
qed

end
